theory Spec2Isabelle
  imports Main
begin

section \<open>The window controller of app/ui/window.js\<close>

text \<open>
  The class \<open>Window\<close> of \<^verbatim>\<open>app/ui/window.js\<close> owns a registry of terminal sessions
  (the JavaScript \<open>Map\<close> called \<open>sessions\<close>), one session created ahead of the first
  request (\<open>initialSession\<close>) with a buffer of its early events (\<open>initialEvents\<close>), a
  navigation counter (\<open>i\<close>) and the handlers of the RPC channel. The controller is
  single threaded: every handler runs to completion. The model is a record of the
  closure variables of the constructor and of \<open>attachRPC\<close>, and one function per handler
  that takes the record and returns it updated.

  The collaborators that are not in this file (the \<open>Session\<close> class, the RPC channel,
  \<open>uuid\<close>, \<open>path\<close>, the configuration store) are not computed: what they return is a
  parameter (the record \<open>env\<close>), what is called on them is appended to a log. A
  method of a collaborator returns before the next event is handled: what a session
  emits because of a call (an "exit" after \<open>exit()\<close>, say) is an event of its own.

  The handlers that drive the native window, the menus, the updater and the plugins
  ("init", "maximize", "unmaximize", "minimize", "open external", the two menus,
  "close", "command", the geometry and move events, \<open>will-navigate\<close>, \<open>new-window\<close>,
  \<open>focus\<close>, the plugin subscriber) read and write none of the variables below, and are
  left out; so \<open>emitted\<close> holds the session events of the channel and not
  "windowGeometry change", "move" or "session data send".
\<close>

subsection \<open>JavaScript values\<close>

type_synonym uid = string

text \<open>A \<open>Session\<close> object is identified by the number of sessions constructed before it.\<close>

type_synonym addr = nat

text \<open>
  A JavaScript value where the file expects a value of one type: \<open>undefined\<close>, \<open>null\<close>, or
  a value of that type.
\<close>

datatype 'a js = JS_undefined | JS_null | JS 'a

text \<open>
  The option objects that reach \<open>Object.assign\<close>: the argument of \<open>createSession\<close>, the
  payload of "new", the defaults. A field is \<open>None\<close> when the object has no such own
  property and \<open>Some v\<close> when it has one with the value \<open>v\<close>, which may be
  \<open>undefined\<close>: \<open>{rows: undefined}\<close> is not \<open>{}\<close>. Reading a property that the object
  does not have gives \<open>undefined\<close>.
\<close>

record options =
  opt_rows :: "int js option"
  opt_cols :: "int js option"
  opt_cwd :: "string js option"
  opt_splitDirection :: "string js option"
  opt_shell :: "string js option"
  opt_shellArgs :: "string list js option"
  opt_uid :: "uid js option"

definition property :: "'a js option \<Rightarrow> 'a js" where
  "property p = (case p of None \<Rightarrow> JS_undefined | Some v \<Rightarrow> v)"

text \<open>The object literal \<open>{}\<close>.\<close>

definition no_options :: options where
  "no_options =
     \<lparr>opt_rows = None, opt_cols = None, opt_cwd = None, opt_splitDirection = None,
      opt_shell = None, opt_shellArgs = None, opt_uid = None\<rparr>"

text \<open>
  One property under \<open>Object.assign(target, source)\<close>: the source's own property,
  whatever its value, else the target's. A source that is \<open>undefined\<close> or \<open>null\<close> is
  skipped, as a source without properties is.
\<close>

definition assigned :: "'a option \<Rightarrow> 'a option \<Rightarrow> 'a option" where
  "assigned target source = (case source of Some v \<Rightarrow> Some v | None \<Rightarrow> target)"

definition Object_assign :: "options \<Rightarrow> options \<Rightarrow> options" where
  "Object_assign target source =
     \<lparr>opt_rows = assigned (opt_rows target) (opt_rows source),
      opt_cols = assigned (opt_cols target) (opt_cols source),
      opt_cwd = assigned (opt_cwd target) (opt_cwd source),
      opt_splitDirection = assigned (opt_splitDirection target) (opt_splitDirection source),
      opt_shell = assigned (opt_shell target) (opt_shell source),
      opt_shellArgs = assigned (opt_shellArgs target) (opt_shellArgs source),
      opt_uid = assigned (opt_uid target) (opt_uid source)\<rparr>"

text \<open>The configuration snapshot \<open>cfg\<close>, as far as this file reads it.\<close>

record config =
  cfg_shell :: "string js"
  cfg_shellArgs :: "string list js"
  cfg_backgroundColor :: "string js"

text \<open>
  What the collaborators return. \<open>uuid_v4 n\<close> is the result of the call of \<open>uuid.v4()\<close>
  made when \<open>n\<close> sessions exist already; \<open>Session_shell n opts\<close> and \<open>Session_pid n opts\<close>
  are the \<open>shell\<close> and \<open>pty.pid\<close> of the session that \<open>new Session(opts)\<close> builds then;
  \<open>argv1\<close> is \<open>process.argv[1]\<close>.
\<close>

record env =
  uuid_v4 :: "nat \<Rightarrow> uid"
  Session_shell :: "nat \<Rightarrow> options \<Rightarrow> string"
  Session_pid :: "nat \<Rightarrow> options \<Rightarrow> nat"
  argv1 :: "string js"
  isAbsolute :: "string \<Rightarrow> bool"
  cfgDir :: string
  platform :: string

subsection \<open>Sessions and their listeners\<close>

text \<open>
  The four closures that the file registers on a session. \<open>handleData\<close> and \<open>handleExit\<close>
  are the temporary listeners of \<open>createInitialSession\<close> (the first captures the uid of
  the warmed session); \<open>liveData uid\<close> and \<open>liveExit uid\<close> are the arrow functions that
  the "new" handler registers.
\<close>

datatype data_listener = handleData uid | liveData uid

datatype exit_listener = handleExit | liveExit uid

record session =
  constructed_with :: options
  session_shell :: string
  pty_pid :: nat
  data_listeners :: "data_listener list"
  exit_listeners :: "exit_listener list"

subsection \<open>What the controller sends and calls\<close>

record session_add_payload =
  add_rows :: "int js"
  add_cols :: "int js"
  add_uid :: uid
  add_splitDirection :: "string js"
  add_shell :: string
  add_pid :: nat

text \<open>
  The arguments of \<open>rpc.emit\<close>. The payload of "session exit" is \<open>Some uid\<close> for the
  object \<open>{uid}\<close> and \<open>None\<close> when \<open>rpc.emit\<close> is called with the event name alone.
\<close>

datatype rpc_event =
    session_add session_add_payload
  | session_data string
  | session_exit "uid option"

text \<open>
  The calls on collaborators, in the order they are made: the methods of a session
  (\<open>Session_resize a cols rows\<close> for \<open>resize({cols, rows})\<close>), the four of \<open>clean\<close>, and
  those of the configuration subscriber (the argument of \<open>setBackgroundColor\<close> is the
  colour before \<open>toElectronBackgroundColor\<close> converts it).
\<close>

datatype call =
    Session_write addr string
  | Session_resize addr int int
  | Session_exit addr
  | Session_destroy addr
  | winRecord
  | rpc_destroy
  | cfgUnsubscribe
  | pluginsUnsubscribe
  | webContents_send string
  | notify
  | setBackgroundColor string

subsection \<open>The state of one window\<close>

text \<open>
  \<open>heap\<close> holds every \<open>Session\<close> object constructed so far, \<open>sessions\<close> is the \<open>Map\<close> in
  insertion order, \<open>emitted\<close> the calls of \<open>rpc.emit\<close> and \<open>calls\<close> the other calls on
  collaborators, \<open>i_nav\<close> the counter \<open>i\<close> of \<open>attachRPC\<close>. \<open>flushEvents_count\<close> and
  \<open>deleteSessions_count\<close> count the invocations of the two functions, as a test spy
  would.
\<close>

record window =
  cfg :: config
  attached :: bool
  workingDirectory :: "string js"
  heap :: "session list"
  sessions :: "(uid \<times> addr) list"
  initialSession :: "(addr \<times> uid) option"
  initialEvents :: "rpc_event list"
  i_nav :: nat
  emitted :: "rpc_event list"
  calls :: "call list"
  flushEvents_count :: nat
  deleteSessions_count :: nat

subsection \<open>The Map of sessions\<close>

fun Map_set :: "'k \<Rightarrow> 'v \<Rightarrow> ('k \<times> 'v) list \<Rightarrow> ('k \<times> 'v) list" where
  "Map_set k v [] = [(k, v)]"
| "Map_set k v ((k', v') # m) = (if k' = k then (k, v) # m else (k', v') # Map_set k v m)"

definition Map_get :: "'k \<Rightarrow> ('k \<times> 'v) list \<Rightarrow> 'v option" where
  "Map_get k m = map_of m k"

definition Map_delete :: "'k \<Rightarrow> ('k \<times> 'v) list \<Rightarrow> ('k \<times> 'v) list" where
  "Map_delete k m = filter (\<lambda>kv. fst kv \<noteq> k) m"

subsection \<open>EventEmitter operations on a session, and the logs\<close>

definition update_session :: "addr \<Rightarrow> (session \<Rightarrow> session) \<Rightarrow> window \<Rightarrow> window" where
  "update_session a f w =
     (if a < length (heap w) then w\<lparr>heap := (heap w)[a := f (heap w ! a)]\<rparr> else w)"

definition session_on_data :: "addr \<Rightarrow> data_listener \<Rightarrow> window \<Rightarrow> window" where
  "session_on_data a l = update_session a (\<lambda>s. s\<lparr>data_listeners := data_listeners s @ [l]\<rparr>)"

definition session_on_exit :: "addr \<Rightarrow> exit_listener \<Rightarrow> window \<Rightarrow> window" where
  "session_on_exit a l = update_session a (\<lambda>s. s\<lparr>exit_listeners := exit_listeners s @ [l]\<rparr>)"

text \<open>\<open>removeListener\<close> removes the instance registered last.\<close>

definition remove_last :: "'a \<Rightarrow> 'a list \<Rightarrow> 'a list" where
  "remove_last x xs = rev (remove1 x (rev xs))"

definition session_removeListener_data :: "addr \<Rightarrow> data_listener \<Rightarrow> window \<Rightarrow> window" where
  "session_removeListener_data a l =
     update_session a (\<lambda>s. s\<lparr>data_listeners := remove_last l (data_listeners s)\<rparr>)"

definition session_removeListener_exit :: "addr \<Rightarrow> exit_listener \<Rightarrow> window \<Rightarrow> window" where
  "session_removeListener_exit a l =
     update_session a (\<lambda>s. s\<lparr>exit_listeners := remove_last l (exit_listeners s)\<rparr>)"

definition session_removeAllListeners :: "addr \<Rightarrow> window \<Rightarrow> window" where
  "session_removeAllListeners a =
     update_session a (\<lambda>s. s\<lparr>data_listeners := [], exit_listeners := []\<rparr>)"

definition rpc_emit :: "rpc_event \<Rightarrow> window \<Rightarrow> window" where
  "rpc_emit e w = w\<lparr>emitted := emitted w @ [e]\<rparr>"

definition called :: "call \<Rightarrow> window \<Rightarrow> window" where
  "called c w = w\<lparr>calls := calls w @ [c]\<rparr>"

subsection \<open>createSession and the warmer\<close>

text \<open>
  \<^verbatim>\<open>function createSession(options) {
    const uid = uuid.v4();
    const session = new Session(Object.assign({}, options, {uid}));
    sessions.set(uid, session);
    return {uid, session};
  }\<close>
  The argument is \<open>None\<close> for a call without argument: \<open>Object.assign\<close> skips an
  \<open>undefined\<close> source. \<open>Session_new env n opts\<close> is the object that \<open>new Session(opts)\<close>
  returns when it is the n-th: it has no listener yet.
\<close>

definition Session_new :: "env \<Rightarrow> nat \<Rightarrow> options \<Rightarrow> session" where
  "Session_new env n opts =
     \<lparr>constructed_with = opts, session_shell = Session_shell env n opts,
      pty_pid = Session_pid env n opts, data_listeners = [], exit_listeners = []\<rparr>"

definition createSession :: "env \<Rightarrow> options option \<Rightarrow> window \<Rightarrow> (uid \<times> addr) \<times> window" where
  "createSession env options w =
     (let n = length (heap w);
          uid = uuid_v4 env n;
          given = (case options of None \<Rightarrow> no_options | Some opts \<Rightarrow> Object_assign no_options opts);
          opts = Object_assign given (no_options\<lparr>opt_uid := Some (JS uid)\<rparr>);
          session = Session_new env n opts;
          w1 = w\<lparr>heap := heap w @ [session]\<rparr>;
          w2 = w1\<lparr>sessions := Map_set uid n (sessions w1)\<rparr>
      in ((uid, n), w2))"

text \<open>
  \<^verbatim>\<open>function createInitialSession() {
    let {session, uid} = createSession({});
    const initialEvents = [];
    const handleData = data => initialEvents.push(['session data', uid + data]);
    const handleExit = () => initialEvents.push(['session exit']);
    session.on('data', handleData);
    session.on('exit', handleExit);
    function flushEvents() { ... }
    return {session, uid, flushEvents};
  }\<close>
\<close>

definition createInitialSession :: "env \<Rightarrow> window \<Rightarrow> (addr \<times> uid) \<times> window" where
  "createInitialSession env w =
     (let ((uid, a), w1) = createSession env (Some no_options) w;
          w2 = w1\<lparr>initialEvents := []\<rparr>;
          w3 = session_on_data a (handleData uid) w2;
          w4 = session_on_exit a handleExit w3
      in ((a, uid), w4))"

text \<open>
  \<^verbatim>\<open>function flushEvents() {
    for (let args of initialEvents) { rpc.emit(...args); }
    session.removeListener('data', handleData);
    session.removeListener('exit', handleExit);
  }\<close>
\<close>

definition flushEvents :: "addr \<Rightarrow> uid \<Rightarrow> window \<Rightarrow> window" where
  "flushEvents a uid w =
     (let w0 = w\<lparr>flushEvents_count := Suc (flushEvents_count w)\<rparr>;
          w1 = foldl (\<lambda>v args. rpc_emit args v) w0 (initialEvents w0);
          w2 = session_removeListener_data a (handleData uid) w1
      in session_removeListener_exit a handleExit w2)"

subsection \<open>The listeners, run\<close>

fun call_data_listener :: "string \<Rightarrow> window \<Rightarrow> data_listener \<Rightarrow> window" where
  "call_data_listener data w (handleData uid) =
     w\<lparr>initialEvents := initialEvents w @ [session_data (uid @ data)]\<rparr>"
| "call_data_listener data w (liveData uid) = rpc_emit (session_data (uid @ data)) w"

fun call_exit_listener :: "window \<Rightarrow> exit_listener \<Rightarrow> window" where
  "call_exit_listener w handleExit = w\<lparr>initialEvents := initialEvents w @ [session_exit None]\<rparr>"
| "call_exit_listener w (liveExit uid) =
     (let w1 = rpc_emit (session_exit (Some uid)) w
      in w1\<lparr>sessions := Map_delete uid (sessions w1)\<rparr>)"

text \<open>
  A session emits "data" or "exit": its listeners run in the order of registration. A
  session that was never constructed emits nothing.
\<close>

definition emits_data :: "addr \<Rightarrow> string \<Rightarrow> window \<Rightarrow> window" where
  "emits_data a data w =
     (if a < length (heap w) then foldl (call_data_listener data) w (data_listeners (heap w ! a))
      else w)"

definition emits_exit :: "addr \<Rightarrow> window \<Rightarrow> window" where
  "emits_exit a w =
     (if a < length (heap w) then foldl call_exit_listener w (exit_listeners (heap w ! a)) else w)"

subsection \<open>The handler of "new"\<close>

text \<open>
  \<^verbatim>\<open>if (workingDirectory) { cwd = workingDirectory; }
  else { cwd = process.argv[1] && isAbsolute(process.argv[1]) ? process.argv[1] : cfgDir; }\<close>
  A value is truthy here when it is a string that is not empty.
\<close>

definition argv_or_cfgDir :: "env \<Rightarrow> string" where
  "argv_or_cfgDir env =
     (case argv1 env of
        JS p \<Rightarrow> if p \<noteq> [] \<and> isAbsolute env p then p else cfgDir env
      | _ \<Rightarrow> cfgDir env)"

definition resolve_cwd :: "env \<Rightarrow> window \<Rightarrow> string" where
  "resolve_cwd env w =
     (case workingDirectory w of
        JS wd \<Rightarrow> if wd \<noteq> [] then wd else argv_or_cfgDir env
      | _ \<Rightarrow> argv_or_cfgDir env)"

text \<open>
  \<^verbatim>\<open>const sessionOpts = Object.assign(
    {rows: 40, cols: 100, cwd: cwd, splitDirection: undefined, shell: cfg.shell,
     shellArgs: cfg.shellArgs && Array.from(cfg.shellArgs)},
    options);\<close>
  The defaults have six own properties, \<open>splitDirection\<close> with the value \<open>undefined\<close>.
  \<open>cfg.shellArgs && Array.from(cfg.shellArgs)\<close> is \<open>cfg.shellArgs\<close> when that is \<open>undefined\<close>
  or \<open>null\<close>, and a copy of the array otherwise.
\<close>

definition sessionOpts :: "env \<Rightarrow> window \<Rightarrow> options \<Rightarrow> options" where
  "sessionOpts env w options =
     Object_assign
       \<lparr>opt_rows = Some (JS 40), opt_cols = Some (JS 100),
        opt_cwd = Some (JS (resolve_cwd env w)), opt_splitDirection = Some JS_undefined,
        opt_shell = Some (cfg_shell (cfg w)), opt_shellArgs = Some (cfg_shellArgs (cfg w)),
        opt_uid = None\<rparr>
       options"

text \<open>
  \<^verbatim>\<open>const {uid, session} = initialSession || createSession();
  sessions.set(uid, session);
  rpc.emit('session add', {rows: sessionOpts.rows, cols: sessionOpts.cols, uid,
    splitDirection: sessionOpts.splitDirection, shell: session.shell, pid: session.pty.pid});
  if (initialSession) { initialSession.flushEvents(); initialSession = null; }
  session.on('data', data => { rpc.emit('session data', uid + data); });
  session.on('exit', () => { rpc.emit('session exit', {uid}); sessions.delete(uid); });\<close>
\<close>

definition on_new :: "env \<Rightarrow> options \<Rightarrow> window \<Rightarrow> window" where
  "on_new env options w =
     (let so = sessionOpts env w options;
          ((uid, a), w1) =
            (case initialSession w of
               Some (a0, uid0) \<Rightarrow> ((uid0, a0), w)
             | None \<Rightarrow> createSession env None w);
          w2 = w1\<lparr>sessions := Map_set uid a (sessions w1)\<rparr>;
          w3 = rpc_emit (session_add
                 \<lparr>add_rows = property (opt_rows so), add_cols = property (opt_cols so),
                  add_uid = uid, add_splitDirection = property (opt_splitDirection so),
                  add_shell = session_shell (heap w2 ! a),
                  add_pid = pty_pid (heap w2 ! a)\<rparr>) w2;
          w4 = (case initialSession w3 of
                  Some (a0, uid0) \<Rightarrow> (flushEvents a0 uid0 w3)\<lparr>initialSession := None\<rparr>
                | None \<Rightarrow> w3);
          w5 = session_on_data a (liveData uid) w4
      in session_on_exit a (liveExit uid) w5)"

subsection \<open>The handlers of "exit", "resize" and "data"\<close>

definition on_exit :: "uid \<Rightarrow> window \<Rightarrow> window" where
  "on_exit uid w =
     (case Map_get uid (sessions w) of
        Some a \<Rightarrow> called (Session_exit a) w
      | None \<Rightarrow> w)"

definition on_resize :: "uid \<Rightarrow> int \<Rightarrow> int \<Rightarrow> window \<Rightarrow> window" where
  "on_resize uid cols rows w =
     (case Map_get uid (sessions w) of
        Some a \<Rightarrow> called (Session_resize a cols rows) w
      | None \<Rightarrow> w)"

text \<open>\<open>s.endsWith(t)\<close>.\<close>

definition endsWith :: "string \<Rightarrow> string \<Rightarrow> bool" where
  "endsWith s t = (length t \<le> length s \<and> drop (length s - length t) s = t)"

text \<open>
  \<^verbatim>\<open>data.replace(/'/g, `'\\''`)\<close>: every single quote (0x27) becomes the four characters
  quote, backslash (0x5C), quote, quote.
\<close>

definition replace_quotes :: "string \<Rightarrow> string" where
  "replace_quotes data =
     concat (map (\<lambda>c. if c = CHR 0x27 then [CHR 0x27, CHR 0x5C, CHR 0x27, CHR 0x27] else [c]) data)"

text \<open>
  \<^verbatim>\<open>const escapedData = session.shell.endsWith('cmd.exe')
    ? `"${data}"` : `'${data.replace(/'/g, `'\\''`)}'`;\<close>
\<close>

definition escapedData :: "string \<Rightarrow> string \<Rightarrow> string" where
  "escapedData sh data =
     (if endsWith sh ''cmd.exe'' then [CHR 0x22] @ data @ [CHR 0x22]
      else [CHR 0x27] @ replace_quotes data @ [CHR 0x27])"

definition on_data :: "uid \<Rightarrow> string \<Rightarrow> bool \<Rightarrow> window \<Rightarrow> window" where
  "on_data uid data escaped w =
     (case Map_get uid (sessions w) of
        Some a \<Rightarrow>
          if escaped then called (Session_write a (escapedData (session_shell (heap w ! a)) data)) w
          else called (Session_write a data) w
      | None \<Rightarrow> w)"

subsection \<open>deleteSessions, navigation, configuration changes\<close>

text \<open>
  \<^verbatim>\<open>const deleteSessions = () => {
    sessions.forEach((session, key) => {
      session.removeAllListeners(); session.destroy(); sessions.delete(key);
    });
  };\<close>
  The callback deletes the entry it visits and no other, so \<open>forEach\<close> visits the
  entries that the Map holds at the call, in insertion order.
\<close>

definition deleteSessions_visit :: "window \<Rightarrow> uid \<times> addr \<Rightarrow> window" where
  "deleteSessions_visit w entry =
     (let w1 = session_removeAllListeners (snd entry) w;
          w2 = called (Session_destroy (snd entry)) w1
      in w2\<lparr>sessions := Map_delete (fst entry) (sessions w2)\<rparr>)"

definition deleteSessions :: "window \<Rightarrow> window" where
  "deleteSessions w =
     foldl deleteSessions_visit
       (w\<lparr>deleteSessions_count := Suc (deleteSessions_count w)\<rparr>) (sessions w)"

text \<open>
  \<^verbatim>\<open>let i = 0;
  window.webContents.on('did-navigate', () => { if (i++) { deleteSessions(); } });\<close>
\<close>

definition on_did_navigate :: "window \<Rightarrow> window" where
  "on_did_navigate w =
     (let w1 = w\<lparr>i_nav := Suc (i_nav w)\<rparr>
      in if i_nav w \<noteq> 0 then deleteSessions w1 else w1)"

text \<open>
  The subscriber of \<open>app.config\<close>; \<open>cfg'\<close> is what \<open>app.plugins.getDecoratedConfig()\<close>
  returns. Two \<open>shellArgs\<close> have the same \<open>JSON.stringify\<close> when they are equal.
\<close>

definition backgroundColor_or_black :: "config \<Rightarrow> string" where
  "backgroundColor_or_black c =
     (case cfg_backgroundColor c of JS b \<Rightarrow> if b \<noteq> [] then b else ''#000'' | _ \<Rightarrow> ''#000'')"

definition on_config_change :: "config \<Rightarrow> window \<Rightarrow> window" where
  "on_config_change cfg' w =
     (let w1 = called (webContents_send ''config change'') w;
          w2 = (if cfg_shell cfg' \<noteq> cfg_shell (cfg w) \<or> cfg_shellArgs cfg' \<noteq> cfg_shellArgs (cfg w)
                then called notify w1 else w1);
          w3 = called (setBackgroundColor (backgroundColor_or_black cfg')) w2
      in w3\<lparr>cfg := cfg'\<rparr>)"

subsection \<open>Construction, attachRPC and clean\<close>

text \<open>The closure variables when the constructor reaches its last statement.\<close>

definition unattached :: "config \<Rightarrow> window" where
  "unattached cfg0 =
     \<lparr>cfg = cfg0, attached = False, workingDirectory = JS_undefined, heap = [], sessions = [],
      initialSession = None, initialEvents = [], i_nav = 0, emitted = [], calls = [],
      flushEvents_count = 0, deleteSessions_count = 0\<rparr>"

text \<open>
  \<open>attachRPC\<close> creates the channel, warms the first session, registers the handlers and
  sets \<open>i\<close> to 0. The model covers its first call on a window.
\<close>

definition attachRPC :: "env \<Rightarrow> string js \<Rightarrow> window \<Rightarrow> window" where
  "attachRPC env wd w =
     (let w1 = w\<lparr>attached := True, workingDirectory := wd\<rparr>;
          (made, w2) = createInitialSession env w1
      in w2\<lparr>initialSession := Some made, i_nav := 0\<rparr>)"

text \<open>
  \<^verbatim>\<open>if (process.platform === 'win32') { window.attachRPC = attachRPC; window.clean = ...; }
  else { attachRPC(); }\<close>
\<close>

definition Window :: "env \<Rightarrow> config \<Rightarrow> window" where
  "Window env cfg0 =
     (if platform env = ''win32'' then unattached cfg0
      else attachRPC env JS_undefined (unattached cfg0))"

text \<open>
  \<open>window.clean\<close>: the function that \<open>attachRPC\<close> installs once it has run, and before
  that the one that the constructor installs on win32.
\<close>

definition clean :: "window \<Rightarrow> window" where
  "clean w =
     (if attached w then
        (let w1 = called winRecord w;
             w2 = called rpc_destroy w1;
             w3 = deleteSessions w2;
             w4 = called cfgUnsubscribe w3
         in called pluginsUnsubscribe w4)
      else
        (let w1 = called winRecord w
         in called cfgUnsubscribe w1))"

subsection \<open>Events\<close>

text \<open>
  What can happen to a window between construction and \<open>clean\<close>: a message of the UI on
  the channel, an event of a session object, a navigation, a configuration change.
  The handlers of the channel, of the sessions and of navigation exist once \<open>attachRPC\<close>
  has run; the configuration subscriber exists from construction.
\<close>

datatype event =
    rpc_new options
  | rpc_exit uid
  | rpc_resize uid int int
  | rpc_data uid string bool
  | session_emits_data addr string
  | session_emits_exit addr
  | did_navigate
  | config_change config

fun handle :: "env \<Rightarrow> event \<Rightarrow> window \<Rightarrow> window" where
  "handle env (rpc_new options) w = on_new env options w"
| "handle env (rpc_exit uid) w = on_exit uid w"
| "handle env (rpc_resize uid cols rows) w = on_resize uid cols rows w"
| "handle env (rpc_data uid data escaped) w = on_data uid data escaped w"
| "handle env (session_emits_data a data) w = emits_data a data w"
| "handle env (session_emits_exit a) w = emits_exit a w"
| "handle env did_navigate w = on_did_navigate w"
| "handle env (config_change cfg') w = on_config_change cfg' w"

definition step :: "env \<Rightarrow> window \<Rightarrow> event \<Rightarrow> window" where
  "step env w e =
     (if attached w then handle env e w
      else (case e of config_change cfg' \<Rightarrow> on_config_change cfg' w | _ \<Rightarrow> w))"

definition run :: "env \<Rightarrow> window \<Rightarrow> event list \<Rightarrow> window" where
  "run env w es = foldl (step env) w es"

subsection \<open>Predicates that the properties speak of\<close>

definition is_rpc_new :: "event \<Rightarrow> bool" where
  "is_rpc_new e = (case e of rpc_new options \<Rightarrow> True | _ \<Rightarrow> False)"

definition is_handleData :: "data_listener \<Rightarrow> bool" where
  "is_handleData l = (case l of handleData uid \<Rightarrow> True | liveData uid \<Rightarrow> False)"

text \<open>A session without the temporary listeners of the warmer.\<close>

definition detached :: "session \<Rightarrow> bool" where
  "detached s =
     (filter is_handleData (data_listeners s) = [] \<and> filter ((=) handleExit) (exit_listeners s) = [])"

text \<open>
  \<open>cmd.exe\<close> is not code of this repository. In its command lines a double quote
  switches quoting on or off and nothing escapes it: \<open>outside_dquotes\<close> collects the
  characters of a line that are outside double quotes, where \<open>cmd.exe\<close> interprets \<open>&\<close>, \<open>|\<close>, \<open><\<close>, \<open>>\<close> and \<open>^\<close>.
\<close>

fun outside_dquotes :: "bool \<Rightarrow> string \<Rightarrow> string" where
  "outside_dquotes quoted [] = []"
| "outside_dquotes quoted (c # cs) =
     (if c = CHR 0x22 then outside_dquotes (\<not> quoted) cs
      else if quoted then outside_dquotes quoted cs
      else c # outside_dquotes quoted cs)"

text \<open>
  Two invariants of the windows that \<open>attachRPC\<close> has built. \<open>registry_ok\<close>: every entry
  of the registry refers to a constructed session. \<open>warmer_ok\<close>: while \<open>initialSession\<close> is
  set, the warmed session is the only session, nothing was flushed, and its listeners
  are the temporary ones or none; once \<open>initialSession\<close> is null, the flush has run once
  and no session has a temporary listener.
\<close>

definition registry_ok :: "window \<Rightarrow> bool" where
  "registry_ok w = list_all (\<lambda>kv. snd kv < length (heap w)) (sessions w)"

definition warmer_ok :: "env \<Rightarrow> window \<Rightarrow> bool" where
  "warmer_ok env w =
     (attached w \<and>
      (case initialSession w of
         Some made \<Rightarrow>
           made = (0, uuid_v4 env 0) \<and> length (heap w) = 1 \<and> flushEvents_count w = 0 \<and>
           (data_listeners (heap w ! 0) = [] \<or>
            data_listeners (heap w ! 0) = [handleData (uuid_v4 env 0)]) \<and>
           (exit_listeners (heap w ! 0) = [] \<or> exit_listeners (heap w ! 0) = [handleExit])
       | None \<Rightarrow> flushEvents_count w = 1 \<and> list_all detached (heap w)))"

subsection \<open>A concrete environment\<close>

text \<open>
  Used where a property is evaluated: the n-th uid is \<open>S\<close> followed by n+1 strokes,
  written \<open>S1\<close> for the first; sessions run \<open>/bin/bash\<close> unless their options name a
  shell; paths are absolute when they start with a slash.
\<close>

definition uid_of :: "nat \<Rightarrow> uid" where
  "uid_of n = (if n = 0 then ''S1'' else ''S'' @ replicate (Suc n) (CHR ''|''))"

definition shell_of :: "nat \<Rightarrow> options \<Rightarrow> string" where
  "shell_of n opts = (case opt_shell opts of Some (JS sh) \<Rightarrow> sh | _ \<Rightarrow> ''/bin/bash'')"

definition pid_of :: "nat \<Rightarrow> options \<Rightarrow> nat" where
  "pid_of n opts = 4000 + n"

definition starts_with_slash :: "string \<Rightarrow> bool" where
  "starts_with_slash p = (take 1 p = ''/'')"

definition env_linux :: env where
  "env_linux =
     \<lparr>uuid_v4 = uid_of, Session_shell = shell_of, Session_pid = pid_of, argv1 = JS_undefined,
      isAbsolute = starts_with_slash, cfgDir = ''/home/u/.hyper'', platform = ''linux''\<rparr>"

definition env_win32 :: env where
  "env_win32 = env_linux\<lparr>platform := ''win32''\<rparr>"

text \<open>The same on win32, and with sessions that run \<open>cmd.exe\<close>.\<close>

definition shell_cmd :: "nat \<Rightarrow> options \<Rightarrow> string" where
  "shell_cmd n opts = ''cmd.exe''"

definition env_cmd :: env where
  "env_cmd = env_win32\<lparr>Session_shell := shell_cmd\<rparr>"

definition cfg_zsh :: config where
  "cfg_zsh =
     \<lparr>cfg_shell = JS ''/bin/zsh'', cfg_shellArgs = JS [''--login''],
      cfg_backgroundColor = JS_undefined\<rparr>"

section \<open>Proofs\<close>

subsection \<open>What each operation changes\<close>

lemma property_simps [simp]:
  "property (Some v) = v"
  "property None = JS_undefined"
  by (simp_all add: property_def)

lemma update_session_frame [simp]:
  "cfg (update_session a f w) = cfg w"
  "attached (update_session a f w) = attached w"
  "workingDirectory (update_session a f w) = workingDirectory w"
  "sessions (update_session a f w) = sessions w"
  "initialSession (update_session a f w) = initialSession w"
  "initialEvents (update_session a f w) = initialEvents w"
  "i_nav (update_session a f w) = i_nav w"
  "emitted (update_session a f w) = emitted w"
  "calls (update_session a f w) = calls w"
  "flushEvents_count (update_session a f w) = flushEvents_count w"
  "deleteSessions_count (update_session a f w) = deleteSessions_count w"
  "length (heap (update_session a f w)) = length (heap w)"
  by (simp_all add: update_session_def)

lemma update_session_heap:
  "heap (update_session a f w) = (if a < length (heap w) then (heap w)[a := f (heap w ! a)] else heap w)"
  by (simp add: update_session_def)

lemma rpc_emit_frame [simp]:
  "cfg (rpc_emit e w) = cfg w"
  "attached (rpc_emit e w) = attached w"
  "workingDirectory (rpc_emit e w) = workingDirectory w"
  "heap (rpc_emit e w) = heap w"
  "sessions (rpc_emit e w) = sessions w"
  "initialSession (rpc_emit e w) = initialSession w"
  "initialEvents (rpc_emit e w) = initialEvents w"
  "i_nav (rpc_emit e w) = i_nav w"
  "emitted (rpc_emit e w) = emitted w @ [e]"
  "calls (rpc_emit e w) = calls w"
  "flushEvents_count (rpc_emit e w) = flushEvents_count w"
  "deleteSessions_count (rpc_emit e w) = deleteSessions_count w"
  by (simp_all add: rpc_emit_def)

lemma called_frame [simp]:
  "cfg (called c w) = cfg w"
  "attached (called c w) = attached w"
  "workingDirectory (called c w) = workingDirectory w"
  "heap (called c w) = heap w"
  "sessions (called c w) = sessions w"
  "initialSession (called c w) = initialSession w"
  "initialEvents (called c w) = initialEvents w"
  "i_nav (called c w) = i_nav w"
  "emitted (called c w) = emitted w"
  "calls (called c w) = calls w @ [c]"
  "flushEvents_count (called c w) = flushEvents_count w"
  "deleteSessions_count (called c w) = deleteSessions_count w"
  by (simp_all add: called_def)

lemma replay_emitted:
  "foldl (\<lambda>v args. rpc_emit args v) w evs = w\<lparr>emitted := emitted w @ evs\<rparr>"
  by (induction evs arbitrary: w) (simp_all add: rpc_emit_def)

lemma flushEvents_frame [simp]:
  "cfg (flushEvents a u w) = cfg w"
  "attached (flushEvents a u w) = attached w"
  "workingDirectory (flushEvents a u w) = workingDirectory w"
  "sessions (flushEvents a u w) = sessions w"
  "initialSession (flushEvents a u w) = initialSession w"
  "initialEvents (flushEvents a u w) = initialEvents w"
  "i_nav (flushEvents a u w) = i_nav w"
  "emitted (flushEvents a u w) = emitted w @ initialEvents w"
  "calls (flushEvents a u w) = calls w"
  "flushEvents_count (flushEvents a u w) = Suc (flushEvents_count w)"
  "deleteSessions_count (flushEvents a u w) = deleteSessions_count w"
  "length (heap (flushEvents a u w)) = length (heap w)"
  by (simp_all add: flushEvents_def Let_def replay_emitted
      session_removeListener_data_def session_removeListener_exit_def)

lemma flushEvents_heap:
  "a < length (heap w) \<Longrightarrow>
   heap (flushEvents a u w) =
     (heap w)[a := (heap w ! a)
        \<lparr>data_listeners := remove_last (handleData u) (data_listeners (heap w ! a)),
         exit_listeners := remove_last handleExit (exit_listeners (heap w ! a))\<rparr>]"
  by (simp add: flushEvents_def Let_def replay_emitted update_session_heap
      session_removeListener_data_def session_removeListener_exit_def)

lemma Object_assign_left [simp]: "Object_assign no_options x = x"
  by (cases x) (simp add: Object_assign_def no_options_def assigned_def split: option.splits)

lemma createSession_result:
  "createSession env options w =
     ((uuid_v4 env (length (heap w)), length (heap w)),
      w\<lparr>heap := heap w @
           [Session_new env (length (heap w))
              (Object_assign (case options of None \<Rightarrow> no_options | Some opts \<Rightarrow> opts)
                 (no_options\<lparr>opt_uid := Some (JS (uuid_v4 env (length (heap w))))\<rparr>))],
        sessions := Map_set (uuid_v4 env (length (heap w))) (length (heap w)) (sessions w)\<rparr>)"
  by (cases options) (simp_all add: createSession_def Let_def)

lemma attachRPC_unattached:
  "attachRPC env wd (unattached cfg0) =
     \<lparr>cfg = cfg0, attached = True, workingDirectory = wd,
      heap = [(Session_new env 0 (no_options\<lparr>opt_uid := Some (JS (uuid_v4 env 0))\<rparr>))
               \<lparr>data_listeners := [handleData (uuid_v4 env 0)], exit_listeners := [handleExit]\<rparr>],
      sessions = [(uuid_v4 env 0, 0)], initialSession = Some (0, uuid_v4 env 0),
      initialEvents = [], i_nav = 0, emitted = [], calls = [],
      flushEvents_count = 0, deleteSessions_count = 0\<rparr>"
  by (simp add: attachRPC_def createInitialSession_def createSession_result unattached_def
      session_on_data_def session_on_exit_def update_session_def Session_new_def)

lemma run_Nil [simp]: "run env w [] = w"
  by (simp add: run_def)

lemma run_Cons [simp]: "run env w (e # es) = run env (step env w e) es"
  by (simp add: run_def)

lemma run_append: "run env w (es @ es') = run env (run env w es) es'"
  by (simp add: run_def)

lemma run_snoc: "run env w (es @ [e]) = step env (run env w es) e"
  by (simp add: run_def)

lemma buffered_data:
  "attached w \<Longrightarrow> a < length (heap w) \<Longrightarrow> data_listeners (heap w ! a) = [handleData u] \<Longrightarrow>
   run env w (map (session_emits_data a) ds) =
     w\<lparr>initialEvents := initialEvents w @ map (\<lambda>d. session_data (u @ d)) ds\<rparr>"
proof (induction ds arbitrary: w)
  case Nil
  show ?case by simp
next
  case (Cons d ds)
  let ?w = "w\<lparr>initialEvents := initialEvents w @ [session_data (u @ d)]\<rparr>"
  have "step env w (session_emits_data a d) = ?w"
    using Cons.prems by (simp add: step_def emits_data_def)
  moreover have "run env ?w (map (session_emits_data a) ds) =
      ?w\<lparr>initialEvents := initialEvents ?w @ map (\<lambda>d. session_data (u @ d)) ds\<rparr>"
    using Cons.prems by (intro Cons.IH) simp_all
  ultimately show ?case by simp
qed

lemma live_data:
  "attached w \<Longrightarrow> a < length (heap w) \<Longrightarrow> data_listeners (heap w ! a) = [liveData u] \<Longrightarrow>
   run env w (map (session_emits_data a) ds) =
     w\<lparr>emitted := emitted w @ map (\<lambda>d. session_data (u @ d)) ds\<rparr>"
proof (induction ds arbitrary: w)
  case Nil
  show ?case by simp
next
  case (Cons d ds)
  let ?w = "w\<lparr>emitted := emitted w @ [session_data (u @ d)]\<rparr>"
  have "step env w (session_emits_data a d) = ?w"
    using Cons.prems by (simp add: step_def emits_data_def rpc_emit_def)
  moreover have "run env ?w (map (session_emits_data a) ds) =
      ?w\<lparr>emitted := emitted ?w @ map (\<lambda>d. session_data (u @ d)) ds\<rparr>"
    using Cons.prems by (intro Cons.IH) simp_all
  ultimately show ?case by simp
qed

lemma Map_set_idem [simp]: "Map_set k v (Map_set k v m) = Map_set k v m"
  by (induction m) auto

lemma Map_get_set [simp]: "Map_get k (Map_set k v m) = Some v"
  by (induction m) (auto simp: Map_get_def)

lemma on_new_warm_frame:
  assumes "initialSession w = Some (a, u)"
  shows "cfg (on_new env options w) = cfg w"
    and "attached (on_new env options w) = attached w"
    and "workingDirectory (on_new env options w) = workingDirectory w"
    and "initialEvents (on_new env options w) = initialEvents w"
    and "i_nav (on_new env options w) = i_nav w"
    and "calls (on_new env options w) = calls w"
    and "deleteSessions_count (on_new env options w) = deleteSessions_count w"
    and "length (heap (on_new env options w)) = length (heap w)"
    and "initialSession (on_new env options w) = None"
    and "flushEvents_count (on_new env options w) = Suc (flushEvents_count w)"
    and "sessions (on_new env options w) = Map_set u a (sessions w)"
  using assms by (simp_all add: on_new_def Let_def session_on_data_def session_on_exit_def)

lemma on_new_warm_emitted:
  assumes "initialSession w = Some (a, u)"
  shows "emitted (on_new env options w) =
     emitted w @
     session_add
       \<lparr>add_rows = property (opt_rows (sessionOpts env w options)),
        add_cols = property (opt_cols (sessionOpts env w options)), add_uid = u,
        add_splitDirection = property (opt_splitDirection (sessionOpts env w options)),
        add_shell = session_shell (heap w ! a), add_pid = pty_pid (heap w ! a)\<rparr>
     # initialEvents w"
  using assms by (simp add: on_new_def Let_def session_on_data_def session_on_exit_def)

lemma on_new_warm_heap:
  assumes "initialSession w = Some (a, u)" and "a < length (heap w)"
  shows "heap (on_new env options w) =
     (heap w)[a := (heap w ! a)
        \<lparr>data_listeners := remove_last (handleData u) (data_listeners (heap w ! a)) @ [liveData u],
         exit_listeners := remove_last handleExit (exit_listeners (heap w ! a)) @ [liveExit u]\<rparr>]"
  using assms
  by (simp add: on_new_def Let_def session_on_data_def session_on_exit_def update_session_heap
      flushEvents_heap)

lemma on_new_fresh_frame:
  assumes "initialSession w = None"
  shows "cfg (on_new env options w) = cfg w"
    and "attached (on_new env options w) = attached w"
    and "workingDirectory (on_new env options w) = workingDirectory w"
    and "initialEvents (on_new env options w) = initialEvents w"
    and "i_nav (on_new env options w) = i_nav w"
    and "calls (on_new env options w) = calls w"
    and "deleteSessions_count (on_new env options w) = deleteSessions_count w"
    and "initialSession (on_new env options w) = None"
    and "flushEvents_count (on_new env options w) = flushEvents_count w"
    and "sessions (on_new env options w) =
           Map_set (uuid_v4 env (length (heap w))) (length (heap w)) (sessions w)"
  using assms
  by (simp_all add: on_new_def Let_def session_on_data_def session_on_exit_def
      createSession_result)

lemma on_new_fresh_heap:
  assumes "initialSession w = None"
  shows "heap (on_new env options w) =
     heap w @
     [(Session_new env (length (heap w))
         (no_options\<lparr>opt_uid := Some (JS (uuid_v4 env (length (heap w))))\<rparr>))
        \<lparr>data_listeners := [liveData (uuid_v4 env (length (heap w)))],
         exit_listeners := [liveExit (uuid_v4 env (length (heap w)))]\<rparr>]"
  using assms
  by (simp add: on_new_def Let_def session_on_data_def session_on_exit_def
      createSession_result update_session_heap Session_new_def)

lemma on_new_fresh_emitted:
  assumes "initialSession w = None"
  shows "emitted (on_new env options w) =
     emitted w @
     [session_add
       \<lparr>add_rows = property (opt_rows (sessionOpts env w options)),
        add_cols = property (opt_cols (sessionOpts env w options)),
        add_uid = uuid_v4 env (length (heap w)),
        add_splitDirection = property (opt_splitDirection (sessionOpts env w options)),
        add_shell = Session_shell env (length (heap w))
          (no_options\<lparr>opt_uid := Some (JS (uuid_v4 env (length (heap w))))\<rparr>),
        add_pid = Session_pid env (length (heap w))
          (no_options\<lparr>opt_uid := Some (JS (uuid_v4 env (length (heap w))))\<rparr>)\<rparr>]"
  using assms
  by (simp add: on_new_def Let_def session_on_data_def session_on_exit_def
      createSession_result Session_new_def)

lemma attachRPC_fields:
  "attached (attachRPC env wd (unattached cfg0))"
  "heap (attachRPC env wd (unattached cfg0)) =
     [(Session_new env 0 (no_options\<lparr>opt_uid := Some (JS (uuid_v4 env 0))\<rparr>))
        \<lparr>data_listeners := [handleData (uuid_v4 env 0)], exit_listeners := [handleExit]\<rparr>]"
  "initialSession (attachRPC env wd (unattached cfg0)) = Some (0, uuid_v4 env 0)"
  "initialEvents (attachRPC env wd (unattached cfg0)) = []"
  "emitted (attachRPC env wd (unattached cfg0)) = []"
  "sessions (attachRPC env wd (unattached cfg0)) = [(uuid_v4 env 0, 0)]"
  "cfg (attachRPC env wd (unattached cfg0)) = cfg0"
  "workingDirectory (attachRPC env wd (unattached cfg0)) = wd"
  "calls (attachRPC env wd (unattached cfg0)) = []"
  "i_nav (attachRPC env wd (unattached cfg0)) = 0"
  "deleteSessions_count (attachRPC env wd (unattached cfg0)) = 0"
  by (simp_all add: attachRPC_unattached)

lemma sessionOpts_cong:
  "cfg w' = cfg w \<Longrightarrow> workingDirectory w' = workingDirectory w \<Longrightarrow>
   sessionOpts env w' options = sessionOpts env w options"
  by (simp add: sessionOpts_def resolve_cwd_def)

lemma buffered_exit:
  "attached w \<Longrightarrow> a < length (heap w) \<Longrightarrow> exit_listeners (heap w ! a) = [handleExit] \<Longrightarrow>
   step env w (session_emits_exit a) = w\<lparr>initialEvents := initialEvents w @ [session_exit None]\<rparr>"
  by (simp add: step_def emits_exit_def)

lemma deleteSessions_visit_frame [simp]:
  "cfg (deleteSessions_visit w e) = cfg w"
  "attached (deleteSessions_visit w e) = attached w"
  "workingDirectory (deleteSessions_visit w e) = workingDirectory w"
  "initialSession (deleteSessions_visit w e) = initialSession w"
  "initialEvents (deleteSessions_visit w e) = initialEvents w"
  "i_nav (deleteSessions_visit w e) = i_nav w"
  "emitted (deleteSessions_visit w e) = emitted w"
  "flushEvents_count (deleteSessions_visit w e) = flushEvents_count w"
  "deleteSessions_count (deleteSessions_visit w e) = deleteSessions_count w"
  "length (heap (deleteSessions_visit w e)) = length (heap w)"
  "calls (deleteSessions_visit w e) = calls w @ [Session_destroy (snd e)]"
  "sessions (deleteSessions_visit w e) = Map_delete (fst e) (sessions w)"
  by (simp_all add: deleteSessions_visit_def Let_def session_removeAllListeners_def)

lemma deleteSessions_visit_heap:
  "heap (deleteSessions_visit w e) =
     (if snd e < length (heap w)
      then (heap w)[snd e := (heap w ! snd e)\<lparr>data_listeners := [], exit_listeners := []\<rparr>]
      else heap w)"
  by (simp add: deleteSessions_visit_def Let_def session_removeAllListeners_def
      update_session_heap)

lemma visits_frame [simp]:
  "cfg (foldl deleteSessions_visit w es) = cfg w"
  "attached (foldl deleteSessions_visit w es) = attached w"
  "workingDirectory (foldl deleteSessions_visit w es) = workingDirectory w"
  "initialSession (foldl deleteSessions_visit w es) = initialSession w"
  "initialEvents (foldl deleteSessions_visit w es) = initialEvents w"
  "i_nav (foldl deleteSessions_visit w es) = i_nav w"
  "emitted (foldl deleteSessions_visit w es) = emitted w"
  "flushEvents_count (foldl deleteSessions_visit w es) = flushEvents_count w"
  "deleteSessions_count (foldl deleteSessions_visit w es) = deleteSessions_count w"
  "length (heap (foldl deleteSessions_visit w es)) = length (heap w)"
  by (induction es arbitrary: w) simp_all

lemma visits_calls:
  "calls (foldl deleteSessions_visit w es) = calls w @ map (\<lambda>e. Session_destroy (snd e)) es"
  by (induction es arbitrary: w) simp_all

lemma visits_sessions:
  "sessions (foldl deleteSessions_visit w es) =
     filter (\<lambda>kv. fst kv \<notin> fst ` set es) (sessions w)"
  by (induction es arbitrary: w) (simp_all add: Map_delete_def conj_commute)

text \<open>A session without listeners keeps none through the visits; a visited one has none.\<close>

lemma visit_keeps_silent:
  "a < length (heap w) \<Longrightarrow> data_listeners (heap w ! a) = [] \<Longrightarrow> exit_listeners (heap w ! a) = [] \<Longrightarrow>
   data_listeners (heap (deleteSessions_visit w e) ! a) = [] \<and>
   exit_listeners (heap (deleteSessions_visit w e) ! a) = []"
  by (simp add: deleteSessions_visit_heap nth_list_update)

lemma visit_silences:
  "snd e < length (heap w) \<Longrightarrow>
   data_listeners (heap (deleteSessions_visit w e) ! snd e) = [] \<and>
   exit_listeners (heap (deleteSessions_visit w e) ! snd e) = []"
  by (simp add: deleteSessions_visit_heap)

lemma visits_keep_silent:
  "a < length (heap w) \<Longrightarrow> data_listeners (heap w ! a) = [] \<Longrightarrow> exit_listeners (heap w ! a) = [] \<Longrightarrow>
   data_listeners (heap (foldl deleteSessions_visit w es) ! a) = [] \<and>
   exit_listeners (heap (foldl deleteSessions_visit w es) ! a) = []"
proof (induction es arbitrary: w)
  case Nil
  then show ?case by simp
next
  case (Cons e es)
  from visit_keeps_silent [OF Cons.prems, of e] Cons.prems(1)
  show ?case by (simp add: Cons.IH)
qed

lemma visits_silence:
  "e \<in> set es \<Longrightarrow> snd e < length (heap w) \<Longrightarrow>
   data_listeners (heap (foldl deleteSessions_visit w es) ! snd e) = [] \<and>
   exit_listeners (heap (foldl deleteSessions_visit w es) ! snd e) = []"
proof (induction es arbitrary: w)
  case Nil
  then show ?case by simp
next
  case (Cons x es)
  show ?case
  proof (cases "e = x")
    case True
    with visit_silences [of x w] Cons.prems(2)
    show ?thesis by (simp add: visits_keep_silent)
  next
    case False
    with Cons.prems have "e \<in> set es" by simp
    then show ?thesis using Cons.prems(2) by (simp add: Cons.IH)
  qed
qed

lemma visits_other_heap:
  "a \<notin> snd ` set es \<Longrightarrow> heap (foldl deleteSessions_visit w es) ! a = heap w ! a"
  by (induction es arbitrary: w) (auto simp: deleteSessions_visit_heap)

lemma deleteSessions_frame [simp]:
  "cfg (deleteSessions w) = cfg w"
  "attached (deleteSessions w) = attached w"
  "workingDirectory (deleteSessions w) = workingDirectory w"
  "initialSession (deleteSessions w) = initialSession w"
  "initialEvents (deleteSessions w) = initialEvents w"
  "i_nav (deleteSessions w) = i_nav w"
  "emitted (deleteSessions w) = emitted w"
  "flushEvents_count (deleteSessions w) = flushEvents_count w"
  "deleteSessions_count (deleteSessions w) = Suc (deleteSessions_count w)"
  "length (heap (deleteSessions w)) = length (heap w)"
  "calls (deleteSessions w) = calls w @ map (\<lambda>e. Session_destroy (snd e)) (sessions w)"
  by (simp_all add: deleteSessions_def visits_calls)

lemma deleteSessions_empties [simp]: "sessions (deleteSessions w) = []"
  by (simp add: deleteSessions_def visits_sessions filter_empty_conv)

lemma deleteSessions_silences:
  "(uid, a) \<in> set (sessions w) \<Longrightarrow> a < length (heap w) \<Longrightarrow>
   data_listeners (heap (deleteSessions w) ! a) = [] \<and>
   exit_listeners (heap (deleteSessions w) ! a) = []"
  using visits_silence [of "(uid, a)" "sessions w" "w\<lparr>deleteSessions_count := Suc (deleteSessions_count w)\<rparr>"]
  by (simp add: deleteSessions_def)

lemma deleteSessions_empty:
  "sessions w = [] \<Longrightarrow> deleteSessions w = w\<lparr>deleteSessions_count := Suc (deleteSessions_count w)\<rparr>"
  by (simp add: deleteSessions_def)

lemma foldl_keeps: "(\<And>v x. p (f v x) = p v) \<Longrightarrow> p (foldl f w xs) = p w"
  by (induction xs arbitrary: w) simp_all

lemma call_data_listener_frame [simp]:
  "cfg (call_data_listener d w l) = cfg w"
  "attached (call_data_listener d w l) = attached w"
  "workingDirectory (call_data_listener d w l) = workingDirectory w"
  "heap (call_data_listener d w l) = heap w"
  "sessions (call_data_listener d w l) = sessions w"
  "initialSession (call_data_listener d w l) = initialSession w"
  "i_nav (call_data_listener d w l) = i_nav w"
  "calls (call_data_listener d w l) = calls w"
  "flushEvents_count (call_data_listener d w l) = flushEvents_count w"
  "deleteSessions_count (call_data_listener d w l) = deleteSessions_count w"
  by (cases l; simp)+

lemma emits_data_frame [simp]:
  "cfg (emits_data a d w) = cfg w"
  "attached (emits_data a d w) = attached w"
  "workingDirectory (emits_data a d w) = workingDirectory w"
  "heap (emits_data a d w) = heap w"
  "sessions (emits_data a d w) = sessions w"
  "initialSession (emits_data a d w) = initialSession w"
  "i_nav (emits_data a d w) = i_nav w"
  "calls (emits_data a d w) = calls w"
  "flushEvents_count (emits_data a d w) = flushEvents_count w"
  "deleteSessions_count (emits_data a d w) = deleteSessions_count w"
  unfolding emits_data_def by (simp_all add: foldl_keeps)

lemma call_exit_listener_frame [simp]:
  "cfg (call_exit_listener w l) = cfg w"
  "attached (call_exit_listener w l) = attached w"
  "workingDirectory (call_exit_listener w l) = workingDirectory w"
  "heap (call_exit_listener w l) = heap w"
  "initialSession (call_exit_listener w l) = initialSession w"
  "i_nav (call_exit_listener w l) = i_nav w"
  "calls (call_exit_listener w l) = calls w"
  "flushEvents_count (call_exit_listener w l) = flushEvents_count w"
  "deleteSessions_count (call_exit_listener w l) = deleteSessions_count w"
  by (cases l; simp add: Let_def)+

lemma emits_exit_frame [simp]:
  "cfg (emits_exit a w) = cfg w"
  "attached (emits_exit a w) = attached w"
  "workingDirectory (emits_exit a w) = workingDirectory w"
  "heap (emits_exit a w) = heap w"
  "initialSession (emits_exit a w) = initialSession w"
  "i_nav (emits_exit a w) = i_nav w"
  "calls (emits_exit a w) = calls w"
  "flushEvents_count (emits_exit a w) = flushEvents_count w"
  "deleteSessions_count (emits_exit a w) = deleteSessions_count w"
  unfolding emits_exit_def by (simp_all add: foldl_keeps)

lemma exit_listeners_sessions:
  "set (sessions (foldl call_exit_listener w ls)) \<subseteq> set (sessions w)"
proof (induction ls arbitrary: w)
  case Nil
  show ?case by simp
next
  case (Cons l ls)
  have "set (sessions (call_exit_listener w l)) \<subseteq> set (sessions w)"
    by (cases l) (auto simp: Let_def Map_delete_def)
  with Cons.IH [of "call_exit_listener w l"] show ?case by auto
qed

lemma emits_exit_sessions: "set (sessions (emits_exit a w)) \<subseteq> set (sessions w)"
  by (simp add: emits_exit_def exit_listeners_sessions)

lemma on_call_frame [simp]:
  "cfg (on_exit uid w) = cfg w" "attached (on_exit uid w) = attached w"
  "workingDirectory (on_exit uid w) = workingDirectory w" "heap (on_exit uid w) = heap w"
  "sessions (on_exit uid w) = sessions w" "initialSession (on_exit uid w) = initialSession w"
  "i_nav (on_exit uid w) = i_nav w" "flushEvents_count (on_exit uid w) = flushEvents_count w"
  "deleteSessions_count (on_exit uid w) = deleteSessions_count w"
  "emitted (on_exit uid w) = emitted w"
  "cfg (on_resize uid c r w) = cfg w" "attached (on_resize uid c r w) = attached w"
  "workingDirectory (on_resize uid c r w) = workingDirectory w" "heap (on_resize uid c r w) = heap w"
  "sessions (on_resize uid c r w) = sessions w"
  "initialSession (on_resize uid c r w) = initialSession w"
  "i_nav (on_resize uid c r w) = i_nav w"
  "flushEvents_count (on_resize uid c r w) = flushEvents_count w"
  "deleteSessions_count (on_resize uid c r w) = deleteSessions_count w"
  "emitted (on_resize uid c r w) = emitted w"
  "cfg (on_data uid d x w) = cfg w" "attached (on_data uid d x w) = attached w"
  "workingDirectory (on_data uid d x w) = workingDirectory w" "heap (on_data uid d x w) = heap w"
  "sessions (on_data uid d x w) = sessions w"
  "initialSession (on_data uid d x w) = initialSession w"
  "i_nav (on_data uid d x w) = i_nav w"
  "flushEvents_count (on_data uid d x w) = flushEvents_count w"
  "deleteSessions_count (on_data uid d x w) = deleteSessions_count w"
  "emitted (on_data uid d x w) = emitted w"
  by (simp_all add: on_exit_def on_resize_def on_data_def split: option.splits)

lemma on_config_change_frame [simp]:
  "cfg (on_config_change c w) = c" "attached (on_config_change c w) = attached w"
  "workingDirectory (on_config_change c w) = workingDirectory w"
  "heap (on_config_change c w) = heap w" "sessions (on_config_change c w) = sessions w"
  "initialSession (on_config_change c w) = initialSession w"
  "i_nav (on_config_change c w) = i_nav w"
  "flushEvents_count (on_config_change c w) = flushEvents_count w"
  "deleteSessions_count (on_config_change c w) = deleteSessions_count w"
  "emitted (on_config_change c w) = emitted w"
  by (simp_all add: on_config_change_def Let_def)

lemma on_did_navigate_frame [simp]:
  "cfg (on_did_navigate w) = cfg w" "attached (on_did_navigate w) = attached w"
  "workingDirectory (on_did_navigate w) = workingDirectory w"
  "initialSession (on_did_navigate w) = initialSession w"
  "flushEvents_count (on_did_navigate w) = flushEvents_count w"
  "emitted (on_did_navigate w) = emitted w"
  "length (heap (on_did_navigate w)) = length (heap w)"
  "i_nav (on_did_navigate w) = Suc (i_nav w)"
  "deleteSessions_count (on_did_navigate w) =
     (if i_nav w = 0 then deleteSessions_count w else Suc (deleteSessions_count w))"
  by (simp_all add: on_did_navigate_def Let_def)

lemma on_new_frame [simp]:
  "cfg (on_new env options w) = cfg w"
  "attached (on_new env options w) = attached w"
  "workingDirectory (on_new env options w) = workingDirectory w"
  "i_nav (on_new env options w) = i_nav w"
  "calls (on_new env options w) = calls w"
  "deleteSessions_count (on_new env options w) = deleteSessions_count w"
  "initialSession (on_new env options w) = None"
  by (cases "initialSession w"; auto simp: on_new_warm_frame on_new_fresh_frame)+

lemma step_attached [simp]: "attached (step env w e) = attached w"
  by (cases e) (simp_all add: step_def)

lemma run_attached [simp]: "attached (run env w es) = attached w"
  by (induction es arbitrary: w) simp_all

subsection \<open>Invariants of an attached window\<close>

lemma detached_silent:
  "data_listeners s = [] \<Longrightarrow> exit_listeners s = [] \<Longrightarrow> detached s"
  by (simp add: detached_def)

lemma deleteSessions_heap_nth:
  assumes "a < length (heap w)"
  shows "heap (deleteSessions w) ! a = heap w ! a \<or>
         (data_listeners (heap (deleteSessions w) ! a) = [] \<and>
          exit_listeners (heap (deleteSessions w) ! a) = [])"
proof (cases "a \<in> snd ` set (sessions w)")
  case True
  then obtain uid where "(uid, a) \<in> set (sessions w)" by auto
  from deleteSessions_silences [OF this assms] show ?thesis by simp
next
  case False
  then show ?thesis by (simp add: deleteSessions_def visits_other_heap)
qed

lemma on_did_navigate_heap_nth:
  assumes "a < length (heap w)"
  shows "heap (on_did_navigate w) ! a = heap w ! a \<or>
         (data_listeners (heap (on_did_navigate w) ! a) = [] \<and>
          exit_listeners (heap (on_did_navigate w) ! a) = [])"
  using deleteSessions_heap_nth [of a "w\<lparr>i_nav := Suc (i_nav w)\<rparr>"] assms
  by (simp add: on_did_navigate_def Let_def)

lemma on_did_navigate_sessions: "set (sessions (on_did_navigate w)) \<subseteq> set (sessions w)"
  by (simp add: on_did_navigate_def Let_def)

lemma Map_set_set: "set (Map_set k v m) \<subseteq> insert (k, v) (set m)"
  by (induction m) (auto split: if_splits)

lemma registry_ok_iff:
  "registry_ok w = (\<forall>kv\<in>set (sessions w). snd kv < length (heap w))"
  by (simp add: registry_ok_def list_all_iff)

lemma registry_ok_grows:
  assumes "registry_ok w" and "set (sessions w') \<subseteq> insert (k, a) (set (sessions w))"
    and "a < length (heap w')" and "length (heap w) \<le> length (heap w')"
  shows "registry_ok w'"
  unfolding registry_ok_iff
proof
  fix kv assume "kv \<in> set (sessions w')"
  with assms(2) have "kv = (k, a) \<or> kv \<in> set (sessions w)" by auto
  then show "snd kv < length (heap w')"
  proof
    assume "kv = (k, a)"
    with assms(3) show ?thesis by simp
  next
    assume "kv \<in> set (sessions w)"
    with assms(1) have "snd kv < length (heap w)" by (simp add: registry_ok_iff)
    with assms(4) show ?thesis by simp
  qed
qed

lemma registry_ok_shrinks:
  assumes "registry_ok w" and "set (sessions w') \<subseteq> set (sessions w)"
    and "length (heap w') = length (heap w)"
  shows "registry_ok w'"
  using assms unfolding registry_ok_iff by auto

lemma warmer_ok_attachRPC:
  "warmer_ok env (attachRPC env wd (unattached cfg0))"
  "registry_ok (attachRPC env wd (unattached cfg0))"
  by (simp_all add: warmer_ok_def registry_ok_def attachRPC_unattached)

lemma warmer_ok_warm:
  assumes "warmer_ok env w" and "initialSession w = Some made"
  shows "made = (0, uuid_v4 env 0)" and "length (heap w) = 1" and "flushEvents_count w = 0"
    and "data_listeners (heap w ! 0) = [] \<or> data_listeners (heap w ! 0) = [handleData (uuid_v4 env 0)]"
    and "exit_listeners (heap w ! 0) = [] \<or> exit_listeners (heap w ! 0) = [handleExit]"
  using assms by (simp_all add: warmer_ok_def)

lemma warmer_ok_flushed:
  assumes "warmer_ok env w" and "initialSession w = None"
  shows "flushEvents_count w = 1" and "list_all detached (heap w)"
  using assms by (simp_all add: warmer_ok_def)

lemma registry_ok_on_new:
  assumes "registry_ok w" and "warmer_ok env w"
  shows "registry_ok (on_new env options w)"
proof (cases "initialSession w")
  case None
  show ?thesis
  proof (rule registry_ok_grows [OF assms(1)])
    show "set (sessions (on_new env options w)) \<subseteq>
        insert (uuid_v4 env (length (heap w)), length (heap w)) (set (sessions w))"
      by (simp add: on_new_fresh_frame [OF None] Map_set_set)
    show "length (heap w) < length (heap (on_new env options w))"
      by (simp add: on_new_fresh_heap [OF None])
    show "length (heap w) \<le> length (heap (on_new env options w))"
      by (simp add: on_new_fresh_heap [OF None])
  qed
next
  case (Some made)
  from warmer_ok_warm(1,2) [OF assms(2) Some]
  have made: "initialSession w = Some (0, uuid_v4 env 0)" and one: "length (heap w) = 1"
    using Some by simp_all
  show ?thesis
  proof (rule registry_ok_grows [OF assms(1)])
    show "set (sessions (on_new env options w)) \<subseteq> insert (uuid_v4 env 0, 0) (set (sessions w))"
      by (simp add: on_new_warm_frame [OF made] Map_set_set)
    show "0 < length (heap (on_new env options w))"
      by (simp add: on_new_warm_frame [OF made] one)
    show "length (heap w) \<le> length (heap (on_new env options w))"
      by (simp add: on_new_warm_frame [OF made])
  qed
qed

lemma warmer_ok_on_new:
  assumes "warmer_ok env w"
  shows "warmer_ok env (on_new env options w)"
proof (cases "initialSession w")
  case None
  from warmer_ok_flushed [OF assms None]
  have "list_all detached (heap (on_new env options w))"
    by (simp add: on_new_fresh_heap [OF None] detached_def is_handleData_def)
  with assms None warmer_ok_flushed(1) [OF assms None] show ?thesis
    by (simp add: warmer_ok_def on_new_fresh_frame [OF None])
next
  case (Some made)
  from warmer_ok_warm [OF assms Some]
  have made: "initialSession w = Some (0, uuid_v4 env 0)" and one: "length (heap w) = 1"
    and zero: "flushEvents_count w = 0"
    and ds: "data_listeners (heap w ! 0) = [] \<or> data_listeners (heap w ! 0) = [handleData (uuid_v4 env 0)]"
    and es: "exit_listeners (heap w ! 0) = [] \<or> exit_listeners (heap w ! 0) = [handleExit]"
    using Some by simp_all
  from one have first: "0 < length (heap w)" by simp
  have "detached ((heap w ! 0)
      \<lparr>data_listeners := remove_last (handleData (uuid_v4 env 0)) (data_listeners (heap w ! 0)) @
         [liveData (uuid_v4 env 0)],
       exit_listeners := remove_last handleExit (exit_listeners (heap w ! 0)) @
         [liveExit (uuid_v4 env 0)]\<rparr>)"
    using ds es by (auto simp: detached_def is_handleData_def remove_last_def)
  then have "list_all detached (heap (on_new env options w))"
    using one by (simp add: on_new_warm_heap [OF made first] list_all_length)
  with assms zero show ?thesis
    by (simp add: warmer_ok_def on_new_warm_frame [OF made])
qed

lemma warmer_ok_on_did_navigate:
  assumes "warmer_ok env w"
  shows "warmer_ok env (on_did_navigate w)"
proof (cases "initialSession w")
  case None
  from warmer_ok_flushed(2) [OF assms None]
  have old: "\<forall>n<length (heap w). detached (heap w ! n)" by (simp add: list_all_length)
  have "\<forall>n<length (heap (on_did_navigate w)). detached (heap (on_did_navigate w) ! n)"
  proof (intro allI impI)
    fix n assume "n < length (heap (on_did_navigate w))"
    then have n: "n < length (heap w)" by simp
    from on_did_navigate_heap_nth [OF n] old n
    show "detached (heap (on_did_navigate w) ! n)"
      by (auto intro: detached_silent)
  qed
  then have "list_all detached (heap (on_did_navigate w))" by (simp add: list_all_length)
  with assms None warmer_ok_flushed(1) [OF assms None] show ?thesis
    by (simp add: warmer_ok_def)
next
  case (Some made)
  from warmer_ok_warm [OF assms Some]
  have one: "length (heap w) = 1"
    and ds: "data_listeners (heap w ! 0) = [] \<or> data_listeners (heap w ! 0) = [handleData (uuid_v4 env 0)]"
    and es: "exit_listeners (heap w ! 0) = [] \<or> exit_listeners (heap w ! 0) = [handleExit]"
    by simp_all
  from one have "0 < length (heap w)" by simp
  from on_did_navigate_heap_nth [OF this] ds es
  have "data_listeners (heap (on_did_navigate w) ! 0) = [] \<or>
        data_listeners (heap (on_did_navigate w) ! 0) = [handleData (uuid_v4 env 0)]"
    and "exit_listeners (heap (on_did_navigate w) ! 0) = [] \<or>
        exit_listeners (heap (on_did_navigate w) ! 0) = [handleExit]"
    by auto
  with assms Some show ?thesis
    by (simp add: warmer_ok_def)
qed

lemma warmer_ok_step:
  assumes "warmer_ok env w"
  shows "warmer_ok env (step env w e)"
proof -
  from assms have att: "attached w" by (simp add: warmer_ok_def)
  show ?thesis
  proof (cases e)
    case (rpc_new options)
    with att assms show ?thesis by (simp add: step_def warmer_ok_on_new)
  next
    case did_navigate
    with att assms show ?thesis by (simp add: step_def warmer_ok_on_did_navigate)
  qed (use att assms in \<open>simp_all add: step_def warmer_ok_def split: option.splits\<close>)
qed

lemma registry_ok_step:
  assumes "registry_ok w" and "warmer_ok env w"
  shows "registry_ok (step env w e)"
proof -
  from assms have att: "attached w" by (simp add: warmer_ok_def)
  show ?thesis
  proof (cases e)
    case (rpc_new options)
    with att assms show ?thesis by (simp add: step_def registry_ok_on_new)
  next
    case (session_emits_exit a)
    with att registry_ok_shrinks [OF assms(1) emits_exit_sessions [of a w]] show ?thesis
      by (simp add: step_def)
  next
    case did_navigate
    with att registry_ok_shrinks [OF assms(1) on_did_navigate_sessions [of w]] show ?thesis
      by (simp add: step_def)
  qed (use att assms in \<open>simp_all add: step_def registry_ok_def\<close>)
qed

lemma invariants_run:
  "warmer_ok env w \<Longrightarrow> registry_ok w \<Longrightarrow>
   warmer_ok env (run env w es) \<and> registry_ok (run env w es)"
  by (induction es arbitrary: w) (simp_all add: warmer_ok_step registry_ok_step)

lemma step_initialSession:
  "attached w \<Longrightarrow>
   initialSession (step env w e) = (if is_rpc_new e then None else initialSession w)"
  by (cases e) (simp_all add: step_def is_rpc_new_def)

lemma run_initialSession:
  "initialSession (run env (attachRPC env wd (unattached cfg0)) es) =
     (if list_ex is_rpc_new es then None else Some (0, uuid_v4 env 0))"
proof (induction es rule: rev_induct)
  case Nil
  show ?case by (simp add: attachRPC_unattached)
next
  case (snoc e es)
  have "attached (run env (attachRPC env wd (unattached cfg0)) es)"
    by (simp add: attachRPC_fields)
  with snoc show ?case by (simp add: run_snoc step_initialSession)
qed

lemma reachable_ok:
  "warmer_ok env (run env (attachRPC env wd (unattached cfg0)) es)"
  "registry_ok (run env (attachRPC env wd (unattached cfg0)) es)"
  "attached (run env (attachRPC env wd (unattached cfg0)) es)"
  using invariants_run [OF warmer_ok_attachRPC, of env wd cfg0 es]
  by (simp_all add: attachRPC_fields)

subsection \<open>Three evaluated windows\<close>

lemma Window_linux: "Window env_linux cfg0 = attachRPC env_linux JS_undefined (unattached cfg0)"
  by (simp add: Window_def env_linux_def)

lemma Window_linux_new:
  "run env_linux (Window env_linux cfg_zsh) [rpc_new no_options] =
     \<lparr>cfg = cfg_zsh, attached = True, workingDirectory = JS_undefined,
      heap = [\<lparr>constructed_with = no_options\<lparr>opt_uid := Some (JS ''S1'')\<rparr>,
               session_shell = ''/bin/bash'', pty_pid = 4000,
               data_listeners = [liveData ''S1''], exit_listeners = [liveExit ''S1'']\<rparr>],
      sessions = [(''S1'', 0)], initialSession = None, initialEvents = [], i_nav = 0,
      emitted = [session_add
        \<lparr>add_rows = JS 40, add_cols = JS 100, add_uid = ''S1'', add_splitDirection = JS_undefined,
         add_shell = ''/bin/bash'', add_pid = 4000\<rparr>],
      calls = [], flushEvents_count = 1, deleteSessions_count = 0\<rparr>"
  by (simp add: Window_def attachRPC_unattached step_def
      on_new_def flushEvents_def replay_emitted rpc_emit_def session_on_data_def
      session_on_exit_def session_removeListener_data_def session_removeListener_exit_def
      update_session_def remove_last_def Session_new_def
      env_linux_def uid_of_def shell_of_def pid_of_def sessionOpts_def
      Object_assign_def assigned_def no_options_def cfg_zsh_def)

lemma Window_linux_new_new:
  "run env_linux (Window env_linux cfg_zsh) [rpc_new no_options, rpc_new no_options] =
     \<lparr>cfg = cfg_zsh, attached = True, workingDirectory = JS_undefined,
      heap = [\<lparr>constructed_with = no_options\<lparr>opt_uid := Some (JS ''S1'')\<rparr>,
               session_shell = ''/bin/bash'', pty_pid = 4000,
               data_listeners = [liveData ''S1''], exit_listeners = [liveExit ''S1'']\<rparr>,
              \<lparr>constructed_with = no_options\<lparr>opt_uid := Some (JS ''S||'')\<rparr>,
               session_shell = ''/bin/bash'', pty_pid = 4001,
               data_listeners = [liveData ''S||''], exit_listeners = [liveExit ''S||'']\<rparr>],
      sessions = [(''S1'', 0), (''S||'', 1)], initialSession = None, initialEvents = [], i_nav = 0,
      emitted = [session_add
        \<lparr>add_rows = JS 40, add_cols = JS 100, add_uid = ''S1'', add_splitDirection = JS_undefined,
         add_shell = ''/bin/bash'', add_pid = 4000\<rparr>,
        session_add
        \<lparr>add_rows = JS 40, add_cols = JS 100, add_uid = ''S||'', add_splitDirection = JS_undefined,
         add_shell = ''/bin/bash'', add_pid = 4001\<rparr>],
      calls = [], flushEvents_count = 1, deleteSessions_count = 0\<rparr>"
proof -
  have "run env_linux (Window env_linux cfg_zsh) [rpc_new no_options, rpc_new no_options] =
      on_new env_linux no_options (run env_linux (Window env_linux cfg_zsh) [rpc_new no_options])"
    using run_snoc [of env_linux "Window env_linux cfg_zsh" "[rpc_new no_options]" "rpc_new no_options"]
    by (simp add: step_def Window_linux attachRPC_fields)
  then show ?thesis
    unfolding Window_linux_new
    by (simp add: on_new_def createSession_result rpc_emit_def session_on_data_def
      session_on_exit_def update_session_def Session_new_def
      env_linux_def uid_of_def shell_of_def pid_of_def sessionOpts_def
      Object_assign_def assigned_def no_options_def cfg_zsh_def)
qed

lemma Window_linux_new_exit:
  "sessions (run env_linux (Window env_linux cfg_zsh) [rpc_new no_options, session_emits_exit 0]) = []"
  "deleteSessions_count
     (run env_linux (Window env_linux cfg_zsh) [rpc_new no_options, session_emits_exit 0]) = 0"
proof -
  have "run env_linux (Window env_linux cfg_zsh) [rpc_new no_options, session_emits_exit 0] =
      emits_exit 0 (run env_linux (Window env_linux cfg_zsh) [rpc_new no_options])"
    using run_snoc [of env_linux "Window env_linux cfg_zsh" "[rpc_new no_options]" "session_emits_exit 0"]
    by (simp add: step_def Window_linux attachRPC_fields)
  then show
    "sessions (run env_linux (Window env_linux cfg_zsh) [rpc_new no_options, session_emits_exit 0]) = []"
    "deleteSessions_count
       (run env_linux (Window env_linux cfg_zsh) [rpc_new no_options, session_emits_exit 0]) = 0"
    unfolding Window_linux_new by (simp_all add: emits_exit_def Map_delete_def)
qed

lemma step_workingDirectory [simp]: "workingDirectory (step env w e) = workingDirectory w"
  by (cases e) (simp_all add: step_def)

lemma run_workingDirectory [simp]: "workingDirectory (run env w es) = workingDirectory w"
  by (induction es arbitrary: w) simp_all

lemma sessionOpts_fields:
  "property (opt_rows (sessionOpts env w options)) =
     (case opt_rows options of None \<Rightarrow> JS 40 | Some r \<Rightarrow> r)"
  "property (opt_cols (sessionOpts env w options)) =
     (case opt_cols options of None \<Rightarrow> JS 100 | Some c \<Rightarrow> c)"
  "property (opt_splitDirection (sessionOpts env w options)) =
     (case opt_splitDirection options of None \<Rightarrow> JS_undefined | Some d \<Rightarrow> d)"
  by (simp_all add: sessionOpts_def Object_assign_def assigned_def property_def
      split: option.splits)

section \<open>The properties\<close>

subsection \<open>Replay of the buffer\<close>

text \<open>
  C1. The window is attached, the warmed session (the first constructed, with the uid
  \<open>uuid_v4 env 0\<close>) emits the data chunks \<open>ds\<close>, the UI sends its first "new", and the
  session emits the chunks \<open>ds'\<close>. The channel then carries one "session add" for the
  warmed session, the buffered chunks of \<open>ds\<close> in their order, each prefixed with the
  uid, and after them the live chunks of \<open>ds'\<close>.
\<close>

theorem C1_buffered_data_replayed_in_order:
  "emitted (run env (attachRPC env wd (unattached cfg0))
      (map (session_emits_data 0) ds @ rpc_new options # map (session_emits_data 0) ds')) =
   session_add
     \<lparr>add_rows = property (opt_rows (sessionOpts env (attachRPC env wd (unattached cfg0)) options)),
      add_cols = property (opt_cols (sessionOpts env (attachRPC env wd (unattached cfg0)) options)),
      add_uid = uuid_v4 env 0,
      add_splitDirection =
        property (opt_splitDirection (sessionOpts env (attachRPC env wd (unattached cfg0)) options)),
      add_shell = Session_shell env 0 (no_options\<lparr>opt_uid := Some (JS (uuid_v4 env 0))\<rparr>),
      add_pid = Session_pid env 0 (no_options\<lparr>opt_uid := Some (JS (uuid_v4 env 0))\<rparr>)\<rparr>
   # map (\<lambda>d. session_data (uuid_v4 env 0 @ d)) ds
   @ map (\<lambda>d. session_data (uuid_v4 env 0 @ d)) ds'"
proof -
  let ?w0 = "attachRPC env wd (unattached cfg0)"
  let ?u = "uuid_v4 env 0"
  let ?w1 = "?w0\<lparr>initialEvents := map (\<lambda>d. session_data (?u @ d)) ds\<rparr>"
  let ?w2 = "on_new env options ?w1"
  have buffered: "run env ?w0 (map (session_emits_data 0) ds) = ?w1"
    using buffered_data [of ?w0 0 ?u env ds] by (simp add: attachRPC_fields)
  have warm: "initialSession ?w1 = Some (0, ?u)"
    by (simp add: attachRPC_fields)
  have same_opts: "sessionOpts env ?w1 options = sessionOpts env ?w0 options"
    by (rule sessionOpts_cong) simp_all
  have new: "step env ?w1 (rpc_new options) = ?w2"
    by (simp add: step_def attachRPC_fields)
  have live: "data_listeners (heap ?w2 ! 0) = [liveData ?u]"
    using on_new_warm_heap [OF warm, of env options]
    by (simp add: attachRPC_fields remove_last_def)
  have "run env ?w2 (map (session_emits_data 0) ds') =
      ?w2\<lparr>emitted := emitted ?w2 @ map (\<lambda>d. session_data (?u @ d)) ds'\<rparr>"
    using live
    by (intro live_data) (simp_all add: on_new_warm_frame [OF warm] attachRPC_fields)
  then have "emitted (run env ?w2 (map (session_emits_data 0) ds')) =
      emitted ?w2 @ map (\<lambda>d. session_data (?u @ d)) ds'"
    by simp
  moreover have "run env ?w0
      (map (session_emits_data 0) ds @ rpc_new options # map (session_emits_data 0) ds') =
      run env ?w2 (map (session_emits_data 0) ds')"
    by (simp add: run_append buffered new)
  ultimately show ?thesis
    by (simp add: on_new_warm_emitted [OF warm] same_opts attachRPC_fields Session_new_def)
qed

theorem C1_witness:
  "emitted (run env_linux (attachRPC env_linux JS_undefined (unattached cfg_zsh))
      [session_emits_data 0 ''a'', session_emits_data 0 ''b'', rpc_new no_options,
       session_emits_data 0 ''c'']) =
   [session_add
      \<lparr>add_rows = JS 40, add_cols = JS 100, add_uid = ''S1'', add_splitDirection = JS_undefined,
       add_shell = ''/bin/bash'', add_pid = 4000\<rparr>,
    session_data ''S1a'', session_data ''S1b'', session_data ''S1c'']"
  using C1_buffered_data_replayed_in_order
    [of env_linux JS_undefined cfg_zsh "[''a'', ''b'']" no_options "[''c'']"]
  by (simp add: env_linux_def uid_of_def shell_of_def pid_of_def sessionOpts_def
      Object_assign_def assigned_def no_options_def)

subsection \<open>The warmed session is consumed once\<close>



subsection \<open>The payload of "session exit"\<close>

text \<open>
  C3. A "session exit" that the warmer buffered is replayed without payload, while the
  listener registered by "new" sends it with the uid: the warmed session exits before
  the first "new" in the first run, after it in the second.
\<close>

theorem C3_buffered_exit_carries_no_uid:
  "emitted (run env_linux (Window env_linux cfg_zsh) [session_emits_exit 0, rpc_new no_options]) =
     [session_add
        \<lparr>add_rows = JS 40, add_cols = JS 100, add_uid = ''S1'', add_splitDirection = JS_undefined,
         add_shell = ''/bin/bash'', add_pid = 4000\<rparr>,
      session_exit None] \<and>
   emitted (run env_linux (Window env_linux cfg_zsh) [rpc_new no_options, session_emits_exit 0]) =
     [session_add
        \<lparr>add_rows = JS 40, add_cols = JS 100, add_uid = ''S1'', add_splitDirection = JS_undefined,
         add_shell = ''/bin/bash'', add_pid = 4000\<rparr>,
      session_exit (Some ''S1'')]"
  by (simp add: Window_def attachRPC_unattached step_def emits_exit_def emits_data_def
      on_new_def flushEvents_def replay_emitted rpc_emit_def session_on_data_def
      session_on_exit_def session_removeListener_data_def session_removeListener_exit_def
      update_session_def remove_last_def Session_new_def Map_delete_def
      env_linux_def uid_of_def shell_of_def pid_of_def sessionOpts_def
      Object_assign_def assigned_def no_options_def cfg_zsh_def)

subsection \<open>Unknown uids\<close>

text \<open>
  C4. When the uid of a "resize", "data" or "exit" message is not a key of the registry,
  the handler returns the window as it was: no call on a session is logged, the
  registry, the sessions and what was sent are the same. The handlers have no other
  branch, so nothing is thrown.
\<close>

theorem C4_unknown_uid_is_ignored:
  "Map_get uid (sessions w) = None \<Longrightarrow>
   step env w (rpc_resize uid cols rows) = w \<and>
   step env w (rpc_data uid data escaped) = w \<and>
   step env w (rpc_exit uid) = w"
  by (simp add: step_def on_resize_def on_data_def on_exit_def)

theorem C4_witness:
  "Map_get ''S0'' (sessions (run env_linux (Window env_linux cfg_zsh) [rpc_new no_options])) = None \<and>
   step env_linux (run env_linux (Window env_linux cfg_zsh) [rpc_new no_options])
     (rpc_resize ''S0'' 80 24) = run env_linux (Window env_linux cfg_zsh) [rpc_new no_options] \<and>
   step env_linux (run env_linux (Window env_linux cfg_zsh) [rpc_new no_options])
     (rpc_data ''S0'' ''ls'' True) = run env_linux (Window env_linux cfg_zsh) [rpc_new no_options] \<and>
   step env_linux (run env_linux (Window env_linux cfg_zsh) [rpc_new no_options])
     (rpc_exit ''S0'') = run env_linux (Window env_linux cfg_zsh) [rpc_new no_options]"
proof -
  have absent:
    "Map_get ''S0'' (sessions (run env_linux (Window env_linux cfg_zsh) [rpc_new no_options])) = None"
    unfolding Window_linux_new by (simp add: Map_get_def)
  show ?thesis
    using absent C4_unknown_uid_is_ignored [OF absent, of env_linux 80 24 "''ls''" True]
    by blast
qed

subsection \<open>Escaped writes\<close>

text \<open>
  C5. A session runs \<open>cmd.exe\<close> and the UI sends "data" with \<open>escaped\<close> set and the data
  \<open>a" & calc & "b\<close>. The handler makes one \<open>write\<close>, of the data between double
  quotes with no character of it changed; in that line the first double quote of the
  data ends the quoting, and \<open> & calc & \<close> is outside. The other branch does neutralise
  its own delimiter: for a shell that is not \<open>cmd.exe\<close>, \<open>it's\<close> is written as
  \<open>'it'\''s'\<close> and \<open>rm -rf /\<close> as \<open>'rm -rf /'\<close>.
\<close>

theorem C5_cmd_quote_leaves_the_quoting:
  "calls (run env_cmd (attachRPC env_cmd JS_undefined (unattached cfg_zsh))
      [rpc_new no_options,
       rpc_data ''S1'' (''a'' @ [CHR 0x22] @ '' & calc & '' @ [CHR 0x22] @ ''b'') True]) =
     [Session_write 0
        ([CHR 0x22] @ ''a'' @ [CHR 0x22] @ '' & calc & '' @ [CHR 0x22] @ ''b'' @ [CHR 0x22])] \<and>
   outside_dquotes False
     ([CHR 0x22] @ ''a'' @ [CHR 0x22] @ '' & calc & '' @ [CHR 0x22] @ ''b'' @ [CHR 0x22]) =
     '' & calc & '' \<and>
   escapedData ''/bin/bash'' (''it'' @ [CHR 0x27] @ ''s'') =
     [CHR 0x27] @ ''it'' @ [CHR 0x27, CHR 0x5C, CHR 0x27, CHR 0x27] @ ''s'' @ [CHR 0x27] \<and>
   escapedData ''/bin/bash'' ''rm -rf /'' = [CHR 0x27] @ ''rm -rf /'' @ [CHR 0x27]"
proof -
  let ?w = "run env_cmd (attachRPC env_cmd JS_undefined (unattached cfg_zsh)) [rpc_new no_options]"
  have warm: "initialSession (attachRPC env_cmd JS_undefined (unattached cfg_zsh)) =
      Some (0, uuid_v4 env_cmd 0)"
    by (simp add: attachRPC_fields)
  have uid: "uuid_v4 env_cmd 0 = ''S1''" and shell: "Session_shell env_cmd = shell_cmd"
    by (simp_all add: env_cmd_def env_win32_def env_linux_def uid_of_def)
  have new: "?w = on_new env_cmd no_options (attachRPC env_cmd JS_undefined (unattached cfg_zsh))"
    by (simp add: step_def attachRPC_fields)
  have "sessions ?w = [(''S1'', 0)]" and "calls ?w = []" and "attached ?w"
    and "session_shell (heap ?w ! 0) = ''cmd.exe''"
    unfolding new
    by (simp_all add: on_new_warm_frame [OF warm] on_new_warm_heap [OF warm] attachRPC_fields
        uid shell Session_new_def shell_cmd_def)
  then have "calls (step env_cmd ?w
      (rpc_data ''S1'' (''a'' @ [CHR 0x22] @ '' & calc & '' @ [CHR 0x22] @ ''b'') True)) =
    [Session_write 0
        ([CHR 0x22] @ ''a'' @ [CHR 0x22] @ '' & calc & '' @ [CHR 0x22] @ ''b'' @ [CHR 0x22])]"
    by (simp add: step_def on_data_def Map_get_def escapedData_def endsWith_def)
  moreover have "run env_cmd (attachRPC env_cmd JS_undefined (unattached cfg_zsh))
      [rpc_new no_options,
       rpc_data ''S1'' (''a'' @ [CHR 0x22] @ '' & calc & '' @ [CHR 0x22] @ ''b'') True] =
      step env_cmd ?w
        (rpc_data ''S1'' (''a'' @ [CHR 0x22] @ '' & calc & '' @ [CHR 0x22] @ ''b'') True)"
    by simp
  moreover have "outside_dquotes False
     ([CHR 0x22] @ ''a'' @ [CHR 0x22] @ '' & calc & '' @ [CHR 0x22] @ ''b'' @ [CHR 0x22]) =
     '' & calc & ''"
    by simp
  moreover have "escapedData ''/bin/bash'' (''it'' @ [CHR 0x27] @ ''s'') =
     [CHR 0x27] @ ''it'' @ [CHR 0x27, CHR 0x5C, CHR 0x27, CHR 0x27] @ ''s'' @ [CHR 0x27]"
    and "escapedData ''/bin/bash'' ''rm -rf /'' = [CHR 0x27] @ ''rm -rf /'' @ [CHR 0x27]"
    by (simp_all add: escapedData_def endsWith_def replace_quotes_def)
  ultimately show ?thesis
    by presburger
qed

subsection \<open>Navigation\<close>

lemma step_i_nav:
  "attached w \<Longrightarrow> i_nav (step env w e) = (if e = did_navigate then Suc (i_nav w) else i_nav w)"
  by (cases e) (simp_all add: step_def)

lemma step_deleteSessions_count:
  "attached w \<Longrightarrow>
   deleteSessions_count (step env w e) =
     (if e = did_navigate \<and> i_nav w \<noteq> 0 then Suc (deleteSessions_count w)
      else deleteSessions_count w)"
  by (cases e) (simp_all add: step_def)

lemma run_navigations:
  "i_nav (run env (attachRPC env wd (unattached cfg0)) es) = length (filter ((=) did_navigate) es) \<and>
   deleteSessions_count (run env (attachRPC env wd (unattached cfg0)) es) =
     length (filter ((=) did_navigate) es) - 1"
proof (induction es rule: rev_induct)
  case Nil
  show ?case by (simp add: attachRPC_unattached)
next
  case (snoc e es)
  let ?w = "run env (attachRPC env wd (unattached cfg0)) es"
  have "attached ?w" by (simp add: attachRPC_fields)
  with snoc show ?case
    by (auto simp: run_snoc step_i_nav step_deleteSessions_count)
qed

text \<open>
  C6. After \<open>attachRPC\<close> and any events \<open>es\<close>, \<open>i\<close> is the number of navigations of \<open>es\<close>
  and \<open>deleteSessions\<close> has been invoked once for every navigation of \<open>es\<close> but the
  first. A further navigation, when \<open>es\<close> has none (it is the first), changes nothing
  but \<open>i\<close>: nothing is invoked, the registry, the sessions and the calls are as before.
  When \<open>es\<close> has one, the navigation is one run of \<open>deleteSessions\<close>: one invocation more,
  the registry empty, one \<open>destroy\<close> on the session of every entry, in their order, and no
  listener left on these sessions.
\<close>

theorem C6_navigation_teardown:
  "(let w = run env (attachRPC env wd (unattached cfg0)) es;
        w' = step env w did_navigate
    in deleteSessions_count w = length (filter ((=) did_navigate) es) - 1 \<and>
       deleteSessions_count w' =
         deleteSessions_count w + (if filter ((=) did_navigate) es = [] then 0 else 1) \<and>
       i_nav w = length (filter ((=) did_navigate) es) \<and>
       (filter ((=) did_navigate) es = [] \<longrightarrow> w' = w\<lparr>i_nav := Suc (i_nav w)\<rparr>) \<and>
       (filter ((=) did_navigate) es \<noteq> [] \<longrightarrow>
          w' = deleteSessions (w\<lparr>i_nav := Suc (i_nav w)\<rparr>) \<and>
          sessions w' = [] \<and>
          calls w' = calls w @ map (\<lambda>entry. Session_destroy (snd entry)) (sessions w) \<and>
          (\<forall>entry\<in>set (sessions w).
             data_listeners (heap w' ! snd entry) = [] \<and>
             exit_listeners (heap w' ! snd entry) = [])))"
proof -
  let ?w = "run env (attachRPC env wd (unattached cfg0)) es"
  let ?v = "?w\<lparr>i_nav := Suc (i_nav ?w)\<rparr>"
  note ok = reachable_ok [of env wd cfg0 es]
  note count = run_navigations [of env wd cfg0 es]
  have nav: "step env ?w did_navigate = on_did_navigate ?w"
    using ok(3) by (simp add: step_def)
  show ?thesis
  proof (cases "filter ((=) did_navigate) es = []")
    case True
    with count have "i_nav ?w = 0" by simp
    with True count show ?thesis
      unfolding Let_def nav by (simp add: on_did_navigate_def)
  next
    case False
    with count have later: "i_nav ?w \<noteq> 0" by simp
    then have run: "on_did_navigate ?w = deleteSessions ?v"
      by (simp add: on_did_navigate_def Let_def)
    have "\<forall>entry\<in>set (sessions ?w).
        data_listeners (heap (deleteSessions ?v) ! snd entry) = [] \<and>
        exit_listeners (heap (deleteSessions ?v) ! snd entry) = []"
    proof
      fix entry assume entry: "entry \<in> set (sessions ?w)"
      with ok(2) have valid: "snd entry < length (heap ?v)"
        by (simp add: registry_ok_iff)
      from entry have "(fst entry, snd entry) \<in> set (sessions ?v)" by simp
      from deleteSessions_silences [OF this valid]
      show "data_listeners (heap (deleteSessions ?v) ! snd entry) = [] \<and>
        exit_listeners (heap (deleteSessions ?v) ! snd entry) = []" .
    qed
    with False count later show ?thesis
      unfolding Let_def nav run by simp
  qed
qed

theorem C6_witness:
  "sessions (step env_linux (run env_linux (attachRPC env_linux JS_undefined (unattached cfg_zsh))
     [rpc_new no_options]) did_navigate) = [(''S1'', 0)] \<and>
   calls (step env_linux (run env_linux (attachRPC env_linux JS_undefined (unattached cfg_zsh))
     [rpc_new no_options]) did_navigate) = [] \<and>
   deleteSessions_count (step env_linux
     (run env_linux (attachRPC env_linux JS_undefined (unattached cfg_zsh))
       [rpc_new no_options]) did_navigate) = 0 \<and>
   sessions (step env_linux (run env_linux (attachRPC env_linux JS_undefined (unattached cfg_zsh))
     [rpc_new no_options, did_navigate]) did_navigate) = [] \<and>
   calls (step env_linux (run env_linux (attachRPC env_linux JS_undefined (unattached cfg_zsh))
     [rpc_new no_options, did_navigate]) did_navigate) = [Session_destroy 0] \<and>
   data_listeners (heap (step env_linux
     (run env_linux (attachRPC env_linux JS_undefined (unattached cfg_zsh))
       [rpc_new no_options, did_navigate]) did_navigate) ! 0) = [] \<and>
   deleteSessions_count (step env_linux
     (run env_linux (attachRPC env_linux JS_undefined (unattached cfg_zsh))
       [rpc_new no_options, did_navigate]) did_navigate) = 1"
proof -
  let ?w = "run env_linux (attachRPC env_linux JS_undefined (unattached cfg_zsh)) [rpc_new no_options]"
  let ?v = "run env_linux (attachRPC env_linux JS_undefined (unattached cfg_zsh))
     [rpc_new no_options, did_navigate]"
  have none: "filter ((=) did_navigate) [rpc_new no_options] = []"
    and one: "filter ((=) did_navigate) [rpc_new no_options, did_navigate] \<noteq> []"
    by simp_all
  have w: "sessions ?w = [(''S1'', 0)]" "calls ?w = []" "deleteSessions_count ?w = 0"
    "i_nav ?w = 0" "attached ?w"
    using Window_linux_new by (simp_all add: Window_linux)
  have "?v = on_did_navigate ?w"
    using w(5) by (simp add: step_def)
  with w have v: "sessions ?v = [(''S1'', 0)]" "calls ?v = []" "deleteSessions_count ?v = 0"
    by (simp_all add: on_did_navigate_def)
  note first_navigation =
    C6_navigation_teardown [of env_linux JS_undefined cfg_zsh "[rpc_new no_options]",
      unfolded Let_def]
  note second_navigation =
    C6_navigation_teardown [of env_linux JS_undefined cfg_zsh "[rpc_new no_options, did_navigate]",
      unfolded Let_def]
  from first_navigation none
  have first: "step env_linux ?w did_navigate = ?w\<lparr>i_nav := Suc (i_nav ?w)\<rparr>"
    by blast
  from second_navigation one
  have torn: "sessions (step env_linux ?v did_navigate) = []"
    and destroyed: "calls (step env_linux ?v did_navigate) =
      calls ?v @ map (\<lambda>entry. Session_destroy (snd entry)) (sessions ?v)"
    and silent: "\<forall>entry\<in>set (sessions ?v).
      data_listeners (heap (step env_linux ?v did_navigate) ! snd entry) = [] \<and>
      exit_listeners (heap (step env_linux ?v did_navigate) ! snd entry) = []"
    by blast+
  from second_navigation
  have counted: "deleteSessions_count (step env_linux ?v did_navigate) =
      deleteSessions_count ?v +
      (if filter ((=) did_navigate) [rpc_new no_options, did_navigate] = [] then 0 else 1)"
    by blast
  have "sessions (step env_linux ?w did_navigate) = [(''S1'', 0)]"
    and "calls (step env_linux ?w did_navigate) = []"
    and "deleteSessions_count (step env_linux ?w did_navigate) = 0"
    unfolding first using w by simp_all
  moreover have "calls (step env_linux ?v did_navigate) = [Session_destroy 0]"
    unfolding destroyed v by simp
  moreover have "data_listeners (heap (step env_linux ?v did_navigate) ! 0) = []"
    using silent unfolding v by simp
  moreover have "deleteSessions_count (step env_linux ?v did_navigate) = 1"
    unfolding counted v by simp
  ultimately show ?thesis
    using torn by blast
qed

subsection \<open>deleteSessions\<close>

text \<open>
  C7. In every window reached from \<open>attachRPC\<close>, after \<open>deleteSessions\<close> the registry is
  empty, so \<open>get\<close> finds no uid; \<open>destroy\<close> was called once on the session of every
  entry, in the order of the entries; each of these sessions has no listener left; and
  when the registry was empty already, nothing changes but the count of invocations.
\<close>

theorem C7_deleteSessions_empties_the_registry:
  "(let w = run env (attachRPC env wd (unattached cfg0)) es;
        w' = deleteSessions w
    in sessions w' = [] \<and>
       Map_get uid (sessions w') = None \<and>
       calls w' = calls w @ map (\<lambda>entry. Session_destroy (snd entry)) (sessions w) \<and>
       (\<forall>entry\<in>set (sessions w).
          snd entry < length (heap w') \<and>
          data_listeners (heap w' ! snd entry) = [] \<and>
          exit_listeners (heap w' ! snd entry) = []) \<and>
       (sessions w = [] \<longrightarrow> w' = w\<lparr>deleteSessions_count := Suc (deleteSessions_count w)\<rparr>))"
proof -
  let ?w = "run env (attachRPC env wd (unattached cfg0)) es"
  have "\<forall>entry\<in>set (sessions ?w).
      snd entry < length (heap (deleteSessions ?w)) \<and>
      data_listeners (heap (deleteSessions ?w) ! snd entry) = [] \<and>
      exit_listeners (heap (deleteSessions ?w) ! snd entry) = []"
  proof
    fix entry assume entry: "entry \<in> set (sessions ?w)"
    with reachable_ok(2) [of env wd cfg0 es] have valid: "snd entry < length (heap ?w)"
      by (simp add: registry_ok_iff)
    from entry have "(fst entry, snd entry) \<in> set (sessions ?w)" by simp
    from deleteSessions_silences [OF this valid] valid
    show "snd entry < length (heap (deleteSessions ?w)) \<and>
      data_listeners (heap (deleteSessions ?w) ! snd entry) = [] \<and>
      exit_listeners (heap (deleteSessions ?w) ! snd entry) = []"
      by simp
  qed
  then show ?thesis
    unfolding Let_def by (simp add: Map_get_def deleteSessions_empty)
qed

theorem C7_witness:
  "sessions (run env_linux (attachRPC env_linux JS_undefined (unattached cfg_zsh))
     [rpc_new no_options, rpc_new no_options]) = [(''S1'', 0), (''S||'', 1)] \<and>
   sessions (deleteSessions (run env_linux (attachRPC env_linux JS_undefined (unattached cfg_zsh))
     [rpc_new no_options, rpc_new no_options])) = [] \<and>
   Map_get ''S1'' (sessions (deleteSessions (run env_linux (attachRPC env_linux JS_undefined (unattached cfg_zsh))
     [rpc_new no_options, rpc_new no_options]))) = None \<and>
   calls (deleteSessions (run env_linux (attachRPC env_linux JS_undefined (unattached cfg_zsh))
     [rpc_new no_options, rpc_new no_options])) = [Session_destroy 0, Session_destroy 1] \<and>
   data_listeners (heap (deleteSessions (run env_linux (attachRPC env_linux JS_undefined (unattached cfg_zsh))
     [rpc_new no_options, rpc_new no_options])) ! 1) = [] \<and>
   exit_listeners (heap (deleteSessions (run env_linux (attachRPC env_linux JS_undefined (unattached cfg_zsh))
     [rpc_new no_options, rpc_new no_options])) ! 1) = [] \<and>
   sessions (run env_linux (attachRPC env_linux JS_undefined (unattached cfg_zsh))
     [rpc_new no_options, session_emits_exit 0]) = [] \<and>
   deleteSessions (run env_linux (attachRPC env_linux JS_undefined (unattached cfg_zsh))
     [rpc_new no_options, session_emits_exit 0]) =
     (run env_linux (attachRPC env_linux JS_undefined (unattached cfg_zsh))
       [rpc_new no_options, session_emits_exit 0])\<lparr>deleteSessions_count := 1\<rparr>"
proof -
  let ?w = "run env_linux (attachRPC env_linux JS_undefined (unattached cfg_zsh))
     [rpc_new no_options, rpc_new no_options]"
  let ?v = "run env_linux (attachRPC env_linux JS_undefined (unattached cfg_zsh))
     [rpc_new no_options, session_emits_exit 0]"
  have regs: "sessions ?w = [(''S1'', 0), (''S||'', 1)]" and none: "calls ?w = []"
    using Window_linux_new_new by (simp_all add: Window_linux)
  have empty: "sessions ?v = []" and count: "deleteSessions_count ?v = 0"
    using Window_linux_new_exit by (simp_all add: Window_linux)
  from C7_deleteSessions_empties_the_registry
        [of env_linux JS_undefined cfg_zsh "[rpc_new no_options, rpc_new no_options]" "''S1''"]
  have two: "sessions (deleteSessions ?w) = []" "Map_get ''S1'' (sessions (deleteSessions ?w)) = None"
    "calls (deleteSessions ?w) = [Session_destroy 0, Session_destroy 1]"
    "data_listeners (heap (deleteSessions ?w) ! 1) = []"
    "exit_listeners (heap (deleteSessions ?w) ! 1) = []"
    unfolding Let_def regs none by simp_all
  from C7_deleteSessions_empties_the_registry
        [of env_linux JS_undefined cfg_zsh "[rpc_new no_options, session_emits_exit 0]" "''S1''"]
  have "deleteSessions ?v = ?v\<lparr>deleteSessions_count := 1\<rparr>"
    unfolding Let_def empty count by simp
  with regs two empty show ?thesis by blast
qed

subsection \<open>clean\<close>

lemma clean_attached:
  "attached w \<Longrightarrow>
   calls (clean w) =
     calls w @ [winRecord, rpc_destroy] @ map (\<lambda>entry. Session_destroy (snd entry)) (sessions w) @
     [cfgUnsubscribe, pluginsUnsubscribe] \<and>
   sessions (clean w) = [] \<and>
   deleteSessions_count (clean w) = Suc (deleteSessions_count w)"
  by (simp add: clean_def Let_def)

lemma clean_unattached:
  "\<not> attached w \<Longrightarrow>
   calls (clean w) = calls w @ [winRecord, cfgUnsubscribe] \<and>
   sessions (clean w) = sessions w \<and>
   deleteSessions_count (clean w) = deleteSessions_count w"
  by (simp add: clean_def Let_def)

text \<open>
  C8, as the claim states it, fails on win32 before \<open>attachRPC\<close> is called: the \<open>clean\<close>
  that the constructor installs there records the window and unsubscribes from the
  configuration, and does nothing else.
\<close>

theorem C8_win32_clean_before_attachRPC:
  "calls (clean (Window env_win32 cfg_zsh)) = [winRecord, cfgUnsubscribe]"
  by (simp add: Window_def env_win32_def env_linux_def unattached_def clean_def called_def)

text \<open>
  C8, amended. Once \<open>attachRPC\<close> has run, \<open>clean\<close> makes the five teardown actions in
  this order: \<open>winRecord\<close>, \<open>rpc.destroy\<close>, \<open>deleteSessions\<close> (one \<open>destroy\<close> per registered
  session, the registry left empty), \<open>cfgUnsubscribe\<close>, \<open>pluginsUnsubscribe\<close>. Before it,
  \<open>clean\<close> makes two: \<open>winRecord\<close> and \<open>cfgUnsubscribe\<close>. A window built off win32 is
  attached from construction on; a window that \<open>attachRPC\<close> has built stays attached.
\<close>

theorem C8_clean_teardown:
  "(attached w \<longrightarrow>
      calls (clean w) =
        calls w @ [winRecord, rpc_destroy] @
        map (\<lambda>entry. Session_destroy (snd entry)) (sessions w) @
        [cfgUnsubscribe, pluginsUnsubscribe] \<and>
      sessions (clean w) = [] \<and>
      deleteSessions_count (clean w) = Suc (deleteSessions_count w)) \<and>
   (\<not> attached w \<longrightarrow>
      calls (clean w) = calls w @ [winRecord, cfgUnsubscribe] \<and>
      sessions (clean w) = sessions w \<and>
      deleteSessions_count (clean w) = deleteSessions_count w) \<and>
   attached (run env (Window env cfg0) es) = (platform env \<noteq> ''win32'') \<and>
   attached (run env (attachRPC env wd (unattached cfg0)) es)"
proof -
  have "\<not> attached (unattached cfg0)"
    by (simp add: unattached_def)
  then have "attached (run env (Window env cfg0) es) = (platform env \<noteq> ''win32'')"
    by (simp add: Window_def attachRPC_fields)
  moreover have "attached (run env (attachRPC env wd (unattached cfg0)) es)"
    by (simp add: attachRPC_fields)
  ultimately show ?thesis
    using clean_attached [of w] clean_unattached [of w] by blast
qed

theorem C8_witness:
  "attached (run env_linux (Window env_linux cfg_zsh) [rpc_new no_options, rpc_new no_options]) \<and>
   calls (clean (run env_linux (Window env_linux cfg_zsh) [rpc_new no_options, rpc_new no_options])) =
     [winRecord, rpc_destroy, Session_destroy 0, Session_destroy 1, cfgUnsubscribe,
      pluginsUnsubscribe] \<and>
   sessions (clean (run env_linux (Window env_linux cfg_zsh)
     [rpc_new no_options, rpc_new no_options])) = [] \<and>
   \<not> attached (run env_win32 (Window env_win32 cfg_zsh) [rpc_new no_options]) \<and>
   calls (clean (run env_win32 (Window env_win32 cfg_zsh) [rpc_new no_options])) =
     [winRecord, cfgUnsubscribe]"
proof -
  let ?w = "run env_linux (Window env_linux cfg_zsh) [rpc_new no_options, rpc_new no_options]"
  let ?v = "run env_win32 (Window env_win32 cfg_zsh) [rpc_new no_options]"
  have linux: "platform env_linux \<noteq> ''win32''" and win32: "platform env_win32 = ''win32''"
    by (simp_all add: env_win32_def env_linux_def)
  have w: "sessions ?w = [(''S1'', 0), (''S||'', 1)]" "calls ?w = []"
    unfolding Window_linux_new_new by simp_all
  have "?v = unattached cfg_zsh"
    by (simp add: Window_def win32 step_def unattached_def)
  then have v: "calls ?v = []"
    by (simp add: unattached_def)
  from C8_clean_teardown [of ?w env_linux cfg_zsh "[rpc_new no_options, rpc_new no_options]" JS_undefined] linux
  have "attached ?w" and "calls (clean ?w) = [winRecord, rpc_destroy, Session_destroy 0,
      Session_destroy 1, cfgUnsubscribe, pluginsUnsubscribe]" and "sessions (clean ?w) = []"
    unfolding w by simp_all
  moreover from C8_clean_teardown [of ?v env_win32 cfg_zsh "[rpc_new no_options]" JS_undefined] win32
  have "\<not> attached ?v" and "calls (clean ?v) = [winRecord, cfgUnsubscribe]"
    unfolding v by simp_all
  ultimately show ?thesis by blast
qed

subsection \<open>The options of "new"\<close>

text \<open>
  C9. The UI sends a first "new" and then a second one that asks for 24 rows in \<open>/tmp\<close>,
  while the configuration names \<open>/bin/zsh --login\<close>. The handler merges the request
  over the defaults (24 rows, 100 cols, \<open>/tmp\<close>, the shell and arguments of the
  configuration) and sends rows and cols from the merge, but the session that it
  constructs for the request, registers and announces was given its uid and nothing
  else: \<open>createSession\<close> is called without the merged options.
\<close>

theorem C9_later_request_options_do_not_reach_the_session:
  "sessionOpts env_linux (run env_linux (Window env_linux cfg_zsh) [rpc_new no_options])
      (no_options\<lparr>opt_rows := Some (JS 24), opt_cwd := Some (JS ''/tmp'')\<rparr>) =
     \<lparr>opt_rows = Some (JS 24), opt_cols = Some (JS 100), opt_cwd = Some (JS ''/tmp''),
      opt_splitDirection = Some JS_undefined, opt_shell = Some (JS ''/bin/zsh''),
      opt_shellArgs = Some (JS [''--login'']), opt_uid = None\<rparr> \<and>
   emitted (run env_linux (Window env_linux cfg_zsh)
      [rpc_new no_options,
       rpc_new (no_options\<lparr>opt_rows := Some (JS 24), opt_cwd := Some (JS ''/tmp'')\<rparr>)]) =
     [session_add
        \<lparr>add_rows = JS 40, add_cols = JS 100, add_uid = ''S1'', add_splitDirection = JS_undefined,
         add_shell = ''/bin/bash'', add_pid = 4000\<rparr>,
      session_add
        \<lparr>add_rows = JS 24, add_cols = JS 100, add_uid = ''S||'', add_splitDirection = JS_undefined,
         add_shell = ''/bin/bash'', add_pid = 4001\<rparr>] \<and>
   sessions (run env_linux (Window env_linux cfg_zsh)
      [rpc_new no_options,
       rpc_new (no_options\<lparr>opt_rows := Some (JS 24), opt_cwd := Some (JS ''/tmp'')\<rparr>)]) =
     [(''S1'', 0), (''S||'', 1)] \<and>
   constructed_with (heap (run env_linux (Window env_linux cfg_zsh)
      [rpc_new no_options,
       rpc_new (no_options\<lparr>opt_rows := Some (JS 24), opt_cwd := Some (JS ''/tmp'')\<rparr>)]) ! 1) =
     \<lparr>opt_rows = None, opt_cols = None, opt_cwd = None, opt_splitDirection = None,
      opt_shell = None, opt_shellArgs = None, opt_uid = Some (JS ''S||'')\<rparr>"
proof -
  let ?o = "no_options\<lparr>opt_rows := Some (JS 24), opt_cwd := Some (JS ''/tmp'')\<rparr>"
  let ?w = "run env_linux (Window env_linux cfg_zsh) [rpc_new no_options]"
  have later: "run env_linux (Window env_linux cfg_zsh) [rpc_new no_options, rpc_new ?o] =
      on_new env_linux ?o ?w"
    using run_snoc [of env_linux "Window env_linux cfg_zsh" "[rpc_new no_options]" "rpc_new ?o"]
    by (simp add: step_def Window_linux attachRPC_fields)
  have merged: "sessionOpts env_linux ?w ?o =
     \<lparr>opt_rows = Some (JS 24), opt_cols = Some (JS 100), opt_cwd = Some (JS ''/tmp''),
      opt_splitDirection = Some JS_undefined, opt_shell = Some (JS ''/bin/zsh''),
      opt_shellArgs = Some (JS [''--login'']), opt_uid = None\<rparr>"
    unfolding Window_linux_new
    by (simp add: sessionOpts_def Object_assign_def assigned_def no_options_def cfg_zsh_def)
  have flushed: "initialSession ?w = None" and one: "length (heap ?w) = 1"
    and sent: "emitted ?w = [session_add
        \<lparr>add_rows = JS 40, add_cols = JS 100, add_uid = ''S1'', add_splitDirection = JS_undefined,
         add_shell = ''/bin/bash'', add_pid = 4000\<rparr>]"
    and regs: "sessions ?w = [(''S1'', 0)]"
    unfolding Window_linux_new by simp_all
  have env: "uuid_v4 env_linux 1 = ''S||''" "Session_shell env_linux = shell_of"
    "Session_pid env_linux = pid_of"
    by (simp_all add: env_linux_def uid_of_def)
  from on_new_fresh_emitted [OF flushed, of env_linux ?o]
  have "emitted (on_new env_linux ?o ?w) =
     [session_add
        \<lparr>add_rows = JS 40, add_cols = JS 100, add_uid = ''S1'', add_splitDirection = JS_undefined,
         add_shell = ''/bin/bash'', add_pid = 4000\<rparr>,
      session_add
        \<lparr>add_rows = JS 24, add_cols = JS 100, add_uid = ''S||'', add_splitDirection = JS_undefined,
         add_shell = ''/bin/bash'', add_pid = 4001\<rparr>]"
    unfolding one sent merged env by (simp add: shell_of_def pid_of_def no_options_def)
  moreover from on_new_fresh_frame(10) [OF flushed, of env_linux ?o]
  have "sessions (on_new env_linux ?o ?w) = [(''S1'', 0), (''S||'', 1)]"
    unfolding one regs env by simp
  moreover from on_new_fresh_heap [OF flushed, of env_linux ?o]
  have "constructed_with (heap (on_new env_linux ?o ?w) ! 1) =
     \<lparr>opt_rows = None, opt_cols = None, opt_cwd = None, opt_splitDirection = None,
      opt_shell = None, opt_shellArgs = None, opt_uid = Some (JS ''S||'')\<rparr>"
    unfolding one env using one by (simp add: Session_new_def no_options_def nth_append)
  ultimately show ?thesis
    unfolding later merged by blast
qed

subsection \<open>A warmed session that has exited\<close>

text \<open>
  C10. The warmed session emits the chunks \<open>ds\<close> and then "exit" before the first "new".
  The exit is buffered: the session stays in the registry, \<open>initialSession\<close> still holds
  it and nothing is sent. The first "new" then takes the warmed session (no session is
  constructed, the heap keeps its single object), sends "session add" for it, replays
  the buffered chunks and the buffered "session exit" after it, and the session is
  still registered when the handler returns. More generally, after any events \<open>es\<close>
  without a "new" (exits of the session, navigations that empty the registry), the
  first "new" sends "session add" for the warmed session, replays the buffer, constructs
  no session and registers the warmed one.
\<close>

theorem C10_dead_warmed_session_is_reused:
  "(let w0 = attachRPC env wd (unattached cfg0);
        u = uuid_v4 env 0;
        dead = run env w0 (map (session_emits_data 0) ds @ [session_emits_exit 0]);
        w = run env w0 es;
        add = (\<lambda>v. session_add
          \<lparr>add_rows = property (opt_rows (sessionOpts env v options)),
           add_cols = property (opt_cols (sessionOpts env v options)), add_uid = u,
           add_splitDirection = property (opt_splitDirection (sessionOpts env v options)),
           add_shell = session_shell (heap v ! 0), add_pid = pty_pid (heap v ! 0)\<rparr>)
    in initialSession dead = Some (0, u) \<and>
       sessions dead = [(u, 0)] \<and>
       emitted dead = [] \<and>
       emitted (step env dead (rpc_new options)) =
         add dead # map (\<lambda>d. session_data (u @ d)) ds @ [session_exit None] \<and>
       length (heap (step env dead (rpc_new options))) = 1 \<and>
       sessions (step env dead (rpc_new options)) = [(u, 0)] \<and>
       (\<not> list_ex is_rpc_new es \<longrightarrow>
          emitted (step env w (rpc_new options)) = emitted w @ add w # initialEvents w \<and>
          length (heap (step env w (rpc_new options))) = 1 \<and>
          Map_get u (sessions (step env w (rpc_new options))) = Some 0))"
proof -
  let ?init = "attachRPC env wd (unattached cfg0)"
  let ?u = "uuid_v4 env 0"
  let ?buf = "?init\<lparr>initialEvents := map (\<lambda>d. session_data (?u @ d)) ds\<rparr>"
  let ?dead = "?init\<lparr>initialEvents := map (\<lambda>d. session_data (?u @ d)) ds @ [session_exit None]\<rparr>"
  let ?v = "run env ?init es"
  have "run env ?init (map (session_emits_data 0) ds) = ?buf"
    using buffered_data [of ?init 0 ?u env ds] by (simp add: attachRPC_fields)
  moreover have "step env ?buf (session_emits_exit 0) = ?dead"
    using buffered_exit [of ?buf 0 env] by (simp add: attachRPC_fields)
  ultimately have dead: "run env ?init (map (session_emits_data 0) ds @ [session_emits_exit 0]) = ?dead"
    by (simp add: run_append)
  have warm: "initialSession ?dead = Some (0, ?u)"
    by (simp add: attachRPC_fields)
  have new: "step env ?dead (rpc_new options) = on_new env options ?dead"
    by (simp add: step_def attachRPC_fields)
  have scenario:
    "initialSession ?dead = Some (0, ?u)" "sessions ?dead = [(?u, 0)]" "emitted ?dead = []"
    "emitted (on_new env options ?dead) =
       session_add
         \<lparr>add_rows = property (opt_rows (sessionOpts env ?dead options)),
          add_cols = property (opt_cols (sessionOpts env ?dead options)), add_uid = ?u,
          add_splitDirection = property (opt_splitDirection (sessionOpts env ?dead options)),
          add_shell = session_shell (heap ?dead ! 0), add_pid = pty_pid (heap ?dead ! 0)\<rparr>
       # map (\<lambda>d. session_data (?u @ d)) ds @ [session_exit None]"
    "length (heap (on_new env options ?dead)) = 1"
    "sessions (on_new env options ?dead) = [(?u, 0)]"
    by (simp_all add: on_new_warm_emitted [OF warm] on_new_warm_frame [OF warm] attachRPC_fields)
  have general: "emitted (step env ?v (rpc_new options)) =
        emitted ?v @
        session_add
          \<lparr>add_rows = property (opt_rows (sessionOpts env ?v options)),
           add_cols = property (opt_cols (sessionOpts env ?v options)), add_uid = ?u,
           add_splitDirection = property (opt_splitDirection (sessionOpts env ?v options)),
           add_shell = session_shell (heap ?v ! 0), add_pid = pty_pid (heap ?v ! 0)\<rparr>
        # initialEvents ?v \<and>
      length (heap (step env ?v (rpc_new options))) = 1 \<and>
      Map_get ?u (sessions (step env ?v (rpc_new options))) = Some 0"
    if first: "\<not> list_ex is_rpc_new es"
  proof -
    note ok = reachable_ok [of env wd cfg0 es]
    from first have reuse: "initialSession ?v = Some (0, ?u)"
      by (simp add: run_initialSession)
    have "step env ?v (rpc_new options) = on_new env options ?v"
      using ok(3) by (simp add: step_def)
    with warmer_ok_warm(2) [OF ok(1) reuse] show ?thesis
      by (simp add: on_new_warm_emitted [OF reuse] on_new_warm_frame [OF reuse])
  qed
  from scenario general show ?thesis
    unfolding Let_def dead new by blast
qed

theorem C10_witness:
  "emitted (run env_linux (attachRPC env_linux JS_undefined (unattached cfg_zsh))
      [session_emits_data 0 ''$ '', session_emits_exit 0]) = [] \<and>
   sessions (run env_linux (attachRPC env_linux JS_undefined (unattached cfg_zsh))
      [session_emits_data 0 ''$ '', session_emits_exit 0]) = [(''S1'', 0)] \<and>
   emitted (step env_linux (run env_linux (attachRPC env_linux JS_undefined (unattached cfg_zsh))
      [session_emits_data 0 ''$ '', session_emits_exit 0]) (rpc_new no_options)) =
     [session_add
        \<lparr>add_rows = JS 40, add_cols = JS 100, add_uid = ''S1'', add_splitDirection = JS_undefined,
         add_shell = ''/bin/bash'', add_pid = 4000\<rparr>,
      session_data ''S1$ '', session_exit None] \<and>
   sessions (step env_linux (run env_linux (attachRPC env_linux JS_undefined (unattached cfg_zsh))
      [session_emits_data 0 ''$ '', session_emits_exit 0]) (rpc_new no_options)) = [(''S1'', 0)] \<and>
   sessions (run env_linux (attachRPC env_linux JS_undefined (unattached cfg_zsh))
      [did_navigate, did_navigate]) = [] \<and>
   length (heap (step env_linux (run env_linux (attachRPC env_linux JS_undefined (unattached cfg_zsh))
      [did_navigate, did_navigate]) (rpc_new no_options))) = 1 \<and>
   Map_get ''S1'' (sessions (step env_linux (run env_linux (attachRPC env_linux JS_undefined (unattached cfg_zsh))
      [did_navigate, did_navigate]) (rpc_new no_options))) = Some 0"
proof -
  let ?init = "attachRPC env_linux JS_undefined (unattached cfg_zsh)"
  have first: "\<not> list_ex is_rpc_new [did_navigate, did_navigate]"
    by (simp add: is_rpc_new_def)
  have gone: "sessions (run env_linux ?init [did_navigate, did_navigate]) = []"
    by (simp add: step_def attachRPC_unattached on_did_navigate_def Let_def)
  have env: "uuid_v4 env_linux 0 = ''S1''"
    by (simp add: env_linux_def uid_of_def)
  have dead: "heap (run env_linux ?init [session_emits_data 0 ''$ '', session_emits_exit 0]) =
      heap ?init"
    by (simp add: step_def attachRPC_fields)
  have shell: "session_shell (heap ?init ! 0) = ''/bin/bash''" "pty_pid (heap ?init ! 0) = 4000"
    by (simp_all add: attachRPC_fields Session_new_def env_linux_def shell_of_def pid_of_def
        no_options_def)
  have opts: "property (opt_rows (sessionOpts env_linux v no_options)) = JS 40"
    "property (opt_cols (sessionOpts env_linux v no_options)) = JS 100"
    "property (opt_splitDirection (sessionOpts env_linux v no_options)) = JS_undefined" for v
    by (simp_all add: sessionOpts_fields no_options_def)
  show ?thesis
    using C10_dead_warmed_session_is_reused
      [of env_linux JS_undefined cfg_zsh "[''$ '']" "[did_navigate, did_navigate]" no_options]
      first gone dead shell
    by (simp add: Let_def env opts)
qed

end
